theory Spec2Isabelle
  imports Main
begin

section \<open>Go errors\<close>

text \<open>
  A Go \<open>error\<close> value is modelled by how it was built: \<open>errors.New\<close>, \<open>fmt.Errorf\<close>
  without \<open>%w\<close> (format string and arguments kept apart, so that no formatting verb has
  to be interpreted), \<open>fmt.Errorf\<close> with \<open>%w\<close> (which wraps another error), a Kubernetes
  API status error carrying its reason, \<open>utilerrors.NewAggregate\<close>, and the detailed error
  of go-autorest with its HTTP status code and its \<open>Original\<close> error (nil is \<open>None\<close>).

  A detailed error comes in two dynamic types. \<open>DetailedError\<close> is the struct value
  \<open>autorest.DetailedError\<close>: this is what \<open>autorest.NewErrorWithError\<close> and the calls of
  the Azure SDK return, the \<open>Error\<close> method having a value receiver. \<open>DetailedErrorPtr\<close> is
  a pointer \<open>*autorest.DetailedError\<close> to such a struct.
\<close>

datatype error =
    ErrorsNew string
  | Errorf string "string list"
  | Wrapf string "string list" error
  | DetailedError int "error option"
  | DetailedErrorPtr int "error option"
  | StatusError string
  | Aggregate "error list"

text \<open>
  \<open>errors.As(err, &detErr)\<close> with \<open>var detErr *autorest.DetailedError\<close>, as each block of
  \<open>CleanUpCloudProvider\<close> calls it: the chain of wrapped errors is walked (\<open>fmt.Errorf\<close> with
  \<open>%w\<close> unwraps to the wrapped error, a detailed error to its \<open>Original\<close>), and the first
  error whose dynamic type is assignable to the target type, the pointer type
  \<open>*autorest.DetailedError\<close>, is stored; the status code of that one is the result. A struct
  value \<open>autorest.DetailedError\<close> is not assignable to the pointer type and is passed over.
\<close>

fun errors_As_DetailedError :: "error \<Rightarrow> int option" where
  "errors_As_DetailedError (DetailedErrorPtr code original) = Some code"
| "errors_As_DetailedError (DetailedError code original) =
     (case original of None \<Rightarrow> None | Some e \<Rightarrow> errors_As_DetailedError e)"
| "errors_As_DetailedError (Wrapf f args e) = errors_As_DetailedError e"
| "errors_As_DetailedError e = None"

definition StatusNotFound :: int where
  "StatusNotFound = 404"

text \<open>\<open>apierrors.IsNotFound\<close>: the reason of the (possibly wrapped) status error is
  \<open>NotFound\<close>.\<close>

fun IsNotFound :: "error \<Rightarrow> bool" where
  "IsNotFound (StatusError reason) = (reason = ''NotFound'')"
| "IsNotFound (Wrapf f args e) = IsNotFound e"
| "IsNotFound e = False"

section \<open>The Cluster object\<close>

record ObjectMeta =
  Name :: string
  Labels :: "string \<rightharpoonup> string"
  Finalizers :: "string list"
  DeletionTimestamp :: "nat option"

record AzureCloudSpec =
  ResourceGroup :: string
  VNetResourceGroup :: string
  VNetName :: string
  SubnetName :: string
  RouteTableName :: string
  SecurityGroup :: string
  AvailabilitySet :: string
  AssignAvailabilitySet :: "bool option"
  LoadBalancerSKU :: string

text \<open>Of the provider sub-specs of \<open>CloudSpec\<close> only the Azure one is read by the code
  verified here; a nil pointer is \<open>None\<close>.\<close>

record CloudSpec =
  DatacenterName :: string
  Azure :: "AzureCloudSpec option"

record ClusterSpec =
  Cloud :: CloudSpec
  Pause :: bool

datatype HealthStatus = HealthStatusDown | HealthStatusUp | HealthStatusProvisioning

record ClusterVersionsStatus =
  ControlPlane :: string

record ExtendedClusterHealth =
  Apiserver :: HealthStatus

text \<open>A condition is kept as its status alone.\<close>

record ClusterStatus =
  NamespaceName :: string
  Versions :: ClusterVersionsStatus
  ExtendedHealth :: ExtendedClusterHealth
  ErrorReason :: "string option"
  ErrorMessage :: "string option"
  Conditions :: "string \<rightharpoonup> bool"

record Cluster =
  Meta :: ObjectMeta
  Spec :: ClusterSpec
  Status :: ClusterStatus

section \<open>Azure: ValidateCloudSpecUpdate\<close>

text \<open>\<open>pkg/provider/cloud/azure/provider.go\<close>, \<open>Azure.ValidateCloudSpecUpdate\<close>. The
  result is the returned error, \<open>None\<close> for \<open>nil\<close>.\<close>

definition ValidateCloudSpecUpdate :: "CloudSpec \<Rightarrow> CloudSpec \<Rightarrow> error option" where
  "ValidateCloudSpecUpdate oldSpec newSpec =
    (case (Azure oldSpec, Azure newSpec) of
       (None, _) \<Rightarrow> Some (ErrorsNew '''azure' spec is empty'')
     | (_, None) \<Rightarrow> Some (ErrorsNew '''azure' spec is empty'')
     | (Some old, Some new) \<Rightarrow>
        if ResourceGroup old \<noteq> [] \<and> ResourceGroup old \<noteq> ResourceGroup new then
          Some (Errorf ''updating Azure resource group is not supported (was %s, updated to %s)''
                  [ResourceGroup old, ResourceGroup new])
        else if VNetResourceGroup old \<noteq> [] \<and> VNetResourceGroup old \<noteq> VNetResourceGroup new then
          Some (Errorf ''updating Azure vnet resource group is not supported (was %s, updated to %s)''
                  [VNetResourceGroup old, VNetResourceGroup new])
        else if VNetName old \<noteq> [] \<and> VNetName old \<noteq> VNetName new then
          Some (Errorf ''updating Azure vnet name is not supported (was %s, updated to %s)''
                  [VNetName old, VNetName new])
        else if SubnetName old \<noteq> [] \<and> SubnetName old \<noteq> SubnetName new then
          Some (Errorf ''updating Azure subnet name is not supported (was %s, updated to %s)''
                  [SubnetName old, SubnetName new])
        else if RouteTableName old \<noteq> [] \<and> RouteTableName old \<noteq> RouteTableName new then
          Some (Errorf ''updating Azure route table name is not supported (was %s, updated to %s)''
                  [RouteTableName old, RouteTableName new])
        else if SecurityGroup old \<noteq> [] \<and> SecurityGroup old \<noteq> SecurityGroup new then
          Some (Errorf ''updating Azure security group is not supported (was %s, updated to %s)''
                  [SecurityGroup old, SecurityGroup new])
        else if AvailabilitySet old \<noteq> [] \<and> AvailabilitySet old \<noteq> AvailabilitySet new then
          Some (Errorf ''updating Azure availability set is not supported (was %s, updated to %s)''
                  [AvailabilitySet old, AvailabilitySet new])
        else None)"


section \<open>Finalizer helpers\<close>

text \<open>
  Modelled from the spec: the helpers of package \<open>pkg/kubernetes\<close> (\<open>HasFinalizer\<close>,
  \<open>HasAnyFinalizer\<close>, \<open>HasOnlyFinalizer\<close>, \<open>RemoveFinalizer\<close>, \<open>TryRemoveFinalizer\<close>) are
  called by the code under verification but declared elsewhere. The spec describes the
  finalizer list as an "ordered set abstraction (insertion-order-preserving,
  duplicate-free) with add/remove/has operations", the credentials stage as running when
  its finalizer "is the only remaining finalizer", and finalizer removal as "an atomic
  read-modify-write against the seed API".
\<close>

definition HasFinalizer :: "ObjectMeta \<Rightarrow> string list \<Rightarrow> bool" where
  "HasFinalizer obj names = list_all (\<lambda>n. n \<in> set (Finalizers obj)) names"

definition HasAnyFinalizer :: "ObjectMeta \<Rightarrow> string list \<Rightarrow> bool" where
  "HasAnyFinalizer obj names = list_ex (\<lambda>n. n \<in> set (Finalizers obj)) names"

definition HasOnlyFinalizer :: "ObjectMeta \<Rightarrow> string list \<Rightarrow> bool" where
  "HasOnlyFinalizer obj names = (set (Finalizers obj) = set names)"

definition RemoveFinalizer :: "ObjectMeta \<Rightarrow> string list \<Rightarrow> ObjectMeta" where
  "RemoveFinalizer obj toRemove =
     obj\<lparr>Finalizers := filter (\<lambda>f. f \<notin> set toRemove) (Finalizers obj)\<rparr>"

text \<open>
  Modelled from the spec: \<open>TryRemoveFinalizer\<close> reads the object from the seed API, removes
  the finalizers and patches it; the caller's object is the one that was read. The first
  argument is what the seed API answers: \<open>None\<close> when the write goes through, the error
  otherwise (then the object keeps its finalizers). The object handed in is taken to be the
  seed's current one: no other writer interleaves.
\<close>

definition TryRemoveFinalizer :: "error option \<Rightarrow> ObjectMeta \<Rightarrow> string list \<Rightarrow> ObjectMeta \<times> error option" where
  "TryRemoveFinalizer api obj finalizers =
     (case api of
        Some e \<Rightarrow> (obj, Some e)
      | None \<Rightarrow> (RemoveFinalizer obj finalizers, None))"

section \<open>Cluster deletion pipeline\<close>

text \<open>
  Modelled from the spec: the finalizer names are constants of \<open>pkg/api/v1\<close>, which is not
  part of the sources at hand. The spec lists them as "cleanup-constraints, in-cluster-LB-cleanup,
  in-cluster-PV-cleanup, etcd-backup-configs-cleanup, node-deletion,
  cluster-role-bindings-cleanup, credentials-secrets-cleanup"; only their being pairwise
  different matters below.
\<close>

definition KubermaticConstraintCleanupFinalizer :: string where
  "KubermaticConstraintCleanupFinalizer = ''cleanup-constraints''"

definition InClusterLBCleanupFinalizer :: string where
  "InClusterLBCleanupFinalizer = ''in-cluster-LB-cleanup''"

definition InClusterPVCleanupFinalizer :: string where
  "InClusterPVCleanupFinalizer = ''in-cluster-PV-cleanup''"

definition EtcdBackupConfigCleanupFinalizer :: string where
  "EtcdBackupConfigCleanupFinalizer = ''etcd-backup-configs-cleanup''"

definition NodeDeletionFinalizer :: string where
  "NodeDeletionFinalizer = ''node-deletion''"

definition ClusterRoleBindingsCleanupFinalizer :: string where
  "ClusterRoleBindingsCleanupFinalizer = ''cluster-role-bindings-cleanup''"

definition CredentialsSecretsCleanupFinalizer :: string where
  "CredentialsSecretsCleanupFinalizer = ''credentials-secrets-cleanup''"

text \<open>
  What one pass of the pipeline does besides changing the Cluster object is recorded as a
  trace. A call of a stage function records the finalizers the Cluster carried at the
  moment of the call.
\<close>

datatype stage =
    Constraints | InClusterResources | EtcdBackupConfigs | Nodes
  | ClusterRoleBindings | CredentialsSecrets

datatype deletion_event =
    Called stage "string list"
  | LBsCleanup
  | VolumesCleanup
  | LBsGoneCheck

record 'e run_state =
  cluster :: Cluster
  trace :: "'e list"

type_synonym deletion_state = "deletion_event run_state"

text \<open>
  The answers of everything outside the pipeline's own control flow: the tenant cluster, the
  seed API and the stage functions kept in other files of the package. A stage that is not
  in the sources either fails, is not finished yet (it returns nil and keeps its finalizer),
  or is finished and asks the seed API to remove its finalizer.
\<close>

datatype stage_outcome = StageFailed error | StagePending | StageDone "error option"

record deletion_env =
  cleanupConstraints_result :: stage_outcome
  cleanupLBs_result :: "error + bool"
  cleanupVolumes_result :: "error + bool"
  checkIfAllLoadbalancersAreGone_result :: "error + bool"
  removeInClusterFinalizers_result :: "error option"
  cleanupEtcdBackupConfigs_result :: stage_outcome
  cleanupNodes_result :: stage_outcome
  removeClusterRoleBindingsFinalizer_result :: "error option"
  cleanUpCredentialsSecrets_result :: stage_outcome

definition called :: "stage \<Rightarrow> deletion_state \<Rightarrow> deletion_state" where
  "called s st = st\<lparr>trace := trace st @ [Called s (Finalizers (Meta (cluster st)))]\<rparr>"

definition tryRemoveFinalizer :: "error option \<Rightarrow> string list \<Rightarrow> deletion_state \<Rightarrow> deletion_state \<times> error option" where
  "tryRemoveFinalizer api finalizers st =
     (case TryRemoveFinalizer api (Meta (cluster st)) finalizers of
        (obj, err) \<Rightarrow> (st\<lparr>cluster := (cluster st)\<lparr>Meta := obj\<rparr>\<rparr>, err))"

text \<open>
  Modelled from the spec: \<open>cleanupConstraints\<close>, \<open>cleanupEtcdBackupConfigs\<close>, \<open>cleanupNodes\<close>
  and \<open>cleanUpCredentialsSecrets\<close> are methods of \<open>Deletion\<close> kept in files that are not
  part of the sources at hand. Each stage is "if this finalizer is present, attempt its
  cleanup; only remove the finalizer once cleanup is confirmed complete".
\<close>

definition guardedStage :: "string \<Rightarrow> stage_outcome \<Rightarrow> deletion_state \<Rightarrow> deletion_state \<times> error option" where
  "guardedStage finalizer outcome st =
     (if \<not> HasFinalizer (Meta (cluster st)) [finalizer] then (st, None)
      else case outcome of
             StageFailed e \<Rightarrow> (st, Some e)
           | StagePending \<Rightarrow> (st, None)
           | StageDone api \<Rightarrow> tryRemoveFinalizer api [finalizer] st)"

definition cleanupConstraints :: "deletion_env \<Rightarrow> deletion_state \<Rightarrow> deletion_state \<times> error option" where
  "cleanupConstraints env st =
     guardedStage KubermaticConstraintCleanupFinalizer (cleanupConstraints_result env) st"

definition cleanupEtcdBackupConfigs :: "deletion_env \<Rightarrow> deletion_state \<Rightarrow> deletion_state \<times> error option" where
  "cleanupEtcdBackupConfigs env st =
     guardedStage EtcdBackupConfigCleanupFinalizer (cleanupEtcdBackupConfigs_result env) st"

definition cleanupNodes :: "deletion_env \<Rightarrow> deletion_state \<Rightarrow> deletion_state \<times> error option" where
  "cleanupNodes env st =
     guardedStage NodeDeletionFinalizer (cleanupNodes_result env) st"

text \<open>
  Modelled from the spec: \<open>cleanUpCredentialsSecrets\<close> is called only behind the
  \<open>HasOnlyFinalizer\<close> gate of \<open>CleanupCluster\<close>; it deletes the secrets and then removes its
  own finalizer.
\<close>

definition cleanUpCredentialsSecrets :: "deletion_env \<Rightarrow> deletion_state \<Rightarrow> deletion_state \<times> error option" where
  "cleanUpCredentialsSecrets env st =
     (case cleanUpCredentialsSecrets_result env of
        StageFailed e \<Rightarrow> (st, Some e)
      | StagePending \<Rightarrow> (st, None)
      | StageDone api \<Rightarrow> tryRemoveFinalizer api [CredentialsSecretsCleanupFinalizer] st)"

text \<open>
  Modelled from the spec: \<open>cleanupLBs\<close>, \<open>cleanupVolumes\<close> and
  \<open>checkIfAllLoadbalancersAreGone\<close> talk to the tenant cluster; they are "opaque remote
  calls with success/failure outcomes". The first two report whether they deleted something,
  the third whether no load balancer is left.
\<close>

definition cleanupLBs :: "deletion_env \<Rightarrow> deletion_state \<Rightarrow> deletion_state \<times> (error + bool)" where
  "cleanupLBs env st = (st\<lparr>trace := trace st @ [LBsCleanup]\<rparr>, cleanupLBs_result env)"

definition cleanupVolumes :: "deletion_env \<Rightarrow> deletion_state \<Rightarrow> deletion_state \<times> (error + bool)" where
  "cleanupVolumes env st = (st\<lparr>trace := trace st @ [VolumesCleanup]\<rparr>, cleanupVolumes_result env)"

definition checkIfAllLoadbalancersAreGone :: "deletion_env \<Rightarrow> deletion_state \<Rightarrow> deletion_state \<times> (error + bool)" where
  "checkIfAllLoadbalancersAreGone env st =
     (st\<lparr>trace := trace st @ [LBsGoneCheck]\<rparr>, checkIfAllLoadbalancersAreGone_result env)"

text \<open>\<open>pkg/clusterdeletion/deletion.go\<close>, \<open>Deletion.cleanupInClusterResources\<close>.\<close>

definition cleanupInClusterResources :: "deletion_env \<Rightarrow> deletion_state \<Rightarrow> deletion_state \<times> error option" where
  "cleanupInClusterResources env st =
     (let shouldDeleteLBs = HasFinalizer (Meta (cluster st)) [InClusterLBCleanupFinalizer];
          shouldDeletePVs = HasFinalizer (Meta (cluster st)) [InClusterPVCleanupFinalizer]
      in
      if \<not> shouldDeleteLBs \<and> \<not> shouldDeletePVs then (st, None)
      else
       (case (if shouldDeleteLBs then cleanupLBs env st else (st, Inr False)) of
          (st1, Inl err) \<Rightarrow> (st1, Some (Wrapf ''failed to cleanup LBs: %w'' [] err))
        | (st1, Inr deletedSomeLBs) \<Rightarrow>
       (case (if shouldDeletePVs then cleanupVolumes env st1 else (st1, Inr False)) of
          (st2, Inl err) \<Rightarrow> (st2, Some (Wrapf ''failed to cleanup PVs: %w'' [] err))
        | (st2, Inr deletedSomeVolumes) \<Rightarrow>
       (let deletedSomeResource = ((False \<or> deletedSomeLBs) \<or> deletedSomeVolumes) in
        if deletedSomeResource then (st2, None)
        else
         (case checkIfAllLoadbalancersAreGone env st2 of
            (st3, Inl err) \<Rightarrow>
              (st3, Some (Wrapf ''failed to check if all Loadbalancers are gone: %w'' [] err))
          | (st3, Inr lbsAreGone) \<Rightarrow>
              if \<not> lbsAreGone then (st3, None)
              else tryRemoveFinalizer (removeInClusterFinalizers_result env)
                     [InClusterLBCleanupFinalizer, InClusterPVCleanupFinalizer] st3)))))"

text \<open>\<open>Deletion.cleanupClusterRoleBindings\<close> (the second file of the package at hand).\<close>

definition cleanupClusterRoleBindings :: "deletion_env \<Rightarrow> deletion_state \<Rightarrow> deletion_state \<times> error option" where
  "cleanupClusterRoleBindings env st =
     tryRemoveFinalizer (removeClusterRoleBindingsFinalizer_result env)
       [ClusterRoleBindingsCleanupFinalizer] st"

text \<open>
  \<open>Deletion.CleanupCluster\<close>, cut at its two halting points: the stages up to the in-cluster
  resources, the stages up to the cluster role bindings, and the credentials gate.
\<close>

definition credentialsGate :: "deletion_env \<Rightarrow> deletion_state \<Rightarrow> deletion_state \<times> error option" where
  "credentialsGate env st =
     (if HasOnlyFinalizer (Meta (cluster st)) [CredentialsSecretsCleanupFinalizer] then
        (case cleanUpCredentialsSecrets env (called CredentialsSecrets st) of
           (st1, Some err) \<Rightarrow> (st1, Some err)
         | (st1, None) \<Rightarrow> (st1, None))
      else (st, None))"

definition laterStages :: "deletion_env \<Rightarrow> deletion_state \<Rightarrow> deletion_state \<times> error option" where
  "laterStages env st =
     (case cleanupEtcdBackupConfigs env (called EtcdBackupConfigs st) of
        (st1, Some err) \<Rightarrow> (st1, Some err)
      | (st1, None) \<Rightarrow>
     (case cleanupNodes env (called Nodes st1) of
        (st2, Some err) \<Rightarrow> (st2, Some err)
      | (st2, None) \<Rightarrow>
     (case cleanupClusterRoleBindings env (called ClusterRoleBindings st2) of
        (st3, Some err) \<Rightarrow> (st3, Some err)
      | (st3, None) \<Rightarrow>
     if HasFinalizer (Meta (cluster st3)) [NodeDeletionFinalizer] then (st3, None)
     else credentialsGate env st3)))"

definition inClusterStages :: "deletion_env \<Rightarrow> deletion_state \<Rightarrow> deletion_state \<times> error option" where
  "inClusterStages env st =
     (case cleanupConstraints env (called Constraints st) of
        (st1, Some err) \<Rightarrow> (st1, Some err)
      | (st1, None) \<Rightarrow> cleanupInClusterResources env (called InClusterResources st1))"

definition CleanupCluster :: "deletion_env \<Rightarrow> Cluster \<Rightarrow> deletion_state \<times> error option" where
  "CleanupCluster env c =
     (case inClusterStages env \<lparr>cluster = c, trace = []\<rparr> of
        (st2, Some err) \<Rightarrow> (st2, Some err)
      | (st2, None) \<Rightarrow>
     if HasAnyFinalizer (Meta (cluster st2))
          [InClusterLBCleanupFinalizer, InClusterPVCleanupFinalizer] then (st2, None)
     else laterStages env st2)"

abbreviation fins :: "'e run_state \<Rightarrow> string list" where
  "fins st \<equiv> Finalizers (Meta (cluster st))"

text \<open>The effect every stage before the credentials gate has on what the gate reads: it
  records no call of the credentials stage, it leaves the credentials finalizer as it is,
  and it adds no finalizer.\<close>

definition quiet :: "(deletion_state \<Rightarrow> deletion_state \<times> error option) \<Rightarrow> bool" where
  "quiet F \<longleftrightarrow> (\<forall>st st' e. F st = (st', e) \<longrightarrow>
      (\<forall>fs. Called CredentialsSecrets fs \<in> set (trace st') \<longleftrightarrow> Called CredentialsSecrets fs \<in> set (trace st))
    \<and> (CredentialsSecretsCleanupFinalizer \<in> set (fins st') \<longleftrightarrow> CredentialsSecretsCleanupFinalizer \<in> set (fins st))
    \<and> set (fins st') \<subseteq> set (fins st))"

text \<open>When the in-cluster stage removes its two finalizers.\<close>

definition removal_due :: "deletion_env \<Rightarrow> deletion_state \<Rightarrow> bool" where
  "removal_due env st \<longleftrightarrow>
     (InClusterLBCleanupFinalizer \<in> set (fins st) \<or> InClusterPVCleanupFinalizer \<in> set (fins st))
   \<and> (InClusterLBCleanupFinalizer \<in> set (fins st) \<longrightarrow> cleanupLBs_result env = Inr False)
   \<and> (InClusterPVCleanupFinalizer \<in> set (fins st) \<longrightarrow> cleanupVolumes_result env = Inr False)
   \<and> checkIfAllLoadbalancersAreGone_result env = Inr True
   \<and> removeInClusterFinalizers_result env = None"

subsection \<open>Example inputs\<close>

definition example_azure :: AzureCloudSpec where
  "example_azure = \<lparr>ResourceGroup = ''rg'', VNetResourceGroup = [], VNetName = ''vnet'',
     SubnetName = ''subnet'', RouteTableName = ''rt'', SecurityGroup = ''sg'',
     AvailabilitySet = ''as'', AssignAvailabilitySet = None, LoadBalancerSKU = ''basic''\<rparr>"

definition example_cluster :: "string list \<Rightarrow> Cluster" where
  "example_cluster finalizers =
     \<lparr>Meta = \<lparr>Name = ''c1'', Labels = Map.empty, Finalizers = finalizers, DeletionTimestamp = Some 1\<rparr>,
      Spec = \<lparr>Cloud = \<lparr>DatacenterName = ''dc'', Azure = Some example_azure\<rparr>, Pause = False\<rparr>,
      Status = \<lparr>NamespaceName = ''cluster-c1'', Versions = \<lparr>ControlPlane = ''1.23.5''\<rparr>,
                ExtendedHealth = \<lparr>Apiserver = HealthStatusUp\<rparr>,
                ErrorReason = None, ErrorMessage = None, Conditions = Map.empty\<rparr>\<rparr>"

text \<open>An environment in which nothing is left to delete and every write goes through, and
  one in which the nodes are not gone yet.\<close>

definition env_all_done :: deletion_env where
  "env_all_done = \<lparr>cleanupConstraints_result = StageDone None,
     cleanupLBs_result = Inr False, cleanupVolumes_result = Inr False,
     checkIfAllLoadbalancersAreGone_result = Inr True,
     removeInClusterFinalizers_result = None,
     cleanupEtcdBackupConfigs_result = StageDone None,
     cleanupNodes_result = StageDone None,
     removeClusterRoleBindingsFinalizer_result = None,
     cleanUpCredentialsSecrets_result = StageDone None\<rparr>"

definition env_nodes_pending :: deletion_env where
  "env_nodes_pending = env_all_done\<lparr>cleanupNodes_result := StagePending\<rparr>"

definition env_lbs_remaining :: deletion_env where
  "env_lbs_remaining = env_all_done\<lparr>checkIfAllLoadbalancersAreGone_result := Inr False\<rparr>"

definition env_volume_deleted :: deletion_env where
  "env_volume_deleted = env_all_done\<lparr>cleanupVolumes_result := Inr True\<rparr>"

section \<open>Azure provider: cleanup and reconciliation\<close>

definition FinalizerSecurityGroup :: string where
  "FinalizerSecurityGroup = ''kubermatic.k8c.io/cleanup-azure-security-group''"

definition FinalizerRouteTable :: string where
  "FinalizerRouteTable = ''kubermatic.k8c.io/cleanup-azure-route-table''"

definition FinalizerSubnet :: string where
  "FinalizerSubnet = ''kubermatic.k8c.io/cleanup-azure-subnet''"

definition FinalizerVNet :: string where
  "FinalizerVNet = ''kubermatic.k8c.io/cleanup-azure-vnet''"

definition FinalizerResourceGroup :: string where
  "FinalizerResourceGroup = ''kubermatic.k8c.io/cleanup-azure-resource-group''"

definition FinalizerAvailabilitySet :: string where
  "FinalizerAvailabilitySet = ''kubermatic.k8c.io/cleanup-azure-availability-set''"

text \<open>A call either returns or panics (a nil pointer is dereferenced).\<close>

datatype 'a go_result = Returned 'a | Panicked

datatype azure_piece =
    ResourceGroupPiece | VNetPiece | SubnetPiece | RouteTablePiece
  | SecurityGroupPiece | AvailabilitySetPiece

text \<open>The remote calls of a pass, in order. A reconcile call records the Azure sub-spec the
  Cluster carried when the call was made.\<close>

datatype azure_event =
    DeleteCall azure_piece
  | UpdateCall azure_piece
  | ReconcileCall azure_piece AzureCloudSpec

type_synonym azure_state = "azure_event run_state"

text \<open>
  What the outside answers: \<open>GetCredentialsForCluster\<close> and \<open>GetClientSet\<close> (their values are
  only handed on to the remote calls, so only their errors are kept), the six delete calls,
  the updater at each stage, and the six reconcile helpers (\<open>reconcileResourceGroup\<close>,
  \<open>reconcileVNet\<close>, ..., declared in other files of the package), which return the Cluster
  they persisted or an error.
\<close>

record azure_env =
  GetCredentialsForCluster_result :: "error option"
  GetClientSet_result :: "error option"
  delete_result :: "azure_piece \<Rightarrow> error option"
  update_result :: "azure_piece \<Rightarrow> error option"
  reconcile_helper :: "azure_piece \<Rightarrow> Cluster \<Rightarrow> error + Cluster"

fun finalizerOf :: "azure_piece \<Rightarrow> string" where
  "finalizerOf SecurityGroupPiece = FinalizerSecurityGroup"
| "finalizerOf RouteTablePiece = FinalizerRouteTable"
| "finalizerOf SubnetPiece = FinalizerSubnet"
| "finalizerOf VNetPiece = FinalizerVNet"
| "finalizerOf AvailabilitySetPiece = FinalizerAvailabilitySet"
| "finalizerOf ResourceGroupPiece = FinalizerResourceGroup"

text \<open>The error a block of \<open>CleanUpCloudProvider\<close> returns when its delete call fails.\<close>

fun deleteFailure :: "azure_piece \<Rightarrow> AzureCloudSpec \<Rightarrow> error \<Rightarrow> error" where
  "deleteFailure SecurityGroupPiece az err =
     Wrapf ''failed to delete security group %q: %w'' [SecurityGroup az] err"
| "deleteFailure RouteTablePiece az err =
     Wrapf ''failed to delete route table %q: %w'' [RouteTableName az] err"
| "deleteFailure SubnetPiece az err =
     Wrapf ''failed to delete sub-network %q: %w'' [SubnetName az] err"
| "deleteFailure VNetPiece az err =
     Wrapf ''failed to delete virtual network %q: %w'' [VNetName az] err"
| "deleteFailure AvailabilitySetPiece az err =
     Wrapf ''failed to delete availability set %q: %w'' [AvailabilitySet az] err"
| "deleteFailure ResourceGroupPiece az err =
     Wrapf ''failed to delete resource group %q: %w'' [ResourceGroup az] err"

text \<open>The test \<open>!errors.As(err, &detErr) || detErr.StatusCode != http.StatusNotFound\<close>,
  negated: \<open>errors.As\<close> finds a \<open>*autorest.DetailedError\<close> in the chain, and its status is
  404.\<close>

definition isNotFoundDetailed :: "error \<Rightarrow> bool" where
  "isNotFoundDetailed err =
     (case errors_As_DetailedError err of
        None \<Rightarrow> False
      | Some code \<Rightarrow> \<not> (code \<noteq> StatusNotFound))"

text \<open>
  Modelled from the spec: the \<open>provider.ClusterUpdater\<close> handed to the provider is declared
  outside the sources at hand; it removes a finalizer "via an atomic read-modify-write
  against the seed API". It applies \<open>modify\<close> to the seed's Cluster and returns the result,
  or fails and changes nothing. The Cluster of the running pass is taken to be the seed's
  current one.
\<close>

definition clusterUpdater :: "error option \<Rightarrow> Cluster \<Rightarrow> (Cluster \<Rightarrow> Cluster) \<Rightarrow> error + Cluster" where
  "clusterUpdater api stored modify =
     (case api of Some err \<Rightarrow> Inl err | None \<Rightarrow> Inr (modify stored))"

text \<open>
  One block of \<open>Azure.CleanUpCloudProvider\<close>; the source repeats it six times, with another
  finalizer, delete call, message and spec field each time. \<open>None\<close> beside the state means
  that control falls through to the next block, \<open>Some r\<close> that the function returns \<open>r\<close>
  (the Cluster pointer and the error). The block reads \<open>cluster.Spec.Cloud.Azure\<close> for its
  log line and message, which panics on a nil sub-spec.
\<close>

definition cleanupBlock ::
  "azure_env \<Rightarrow> azure_piece \<Rightarrow> azure_state
     \<Rightarrow> azure_state \<times> (Cluster option \<times> error option) go_result option" where
  "cleanupBlock env p st =
     (if HasFinalizer (Meta (cluster st)) [finalizerOf p] then
        (case Azure (Cloud (Spec (cluster st))) of
           None \<Rightarrow> (st, Some Panicked)
         | Some az \<Rightarrow>
            (let st1 = st\<lparr>trace := trace st @ [DeleteCall p]\<rparr> in
             case (case delete_result env p of
                     None \<Rightarrow> None
                   | Some err \<Rightarrow> if \<not> isNotFoundDetailed err then Some err else None) of
               Some err \<Rightarrow>
                 (st1, Some (Returned (Some (cluster st1), Some (deleteFailure p az err))))
             | None \<Rightarrow>
                (let st2 = st1\<lparr>trace := trace st1 @ [UpdateCall p]\<rparr> in
                 case clusterUpdater (update_result env p) (cluster st2)
                        (\<lambda>updatedCluster. updatedCluster\<lparr>Meta :=
                            RemoveFinalizer (Meta updatedCluster) [finalizerOf p]\<rparr>) of
                   Inl err \<Rightarrow> (st2, Some (Returned (None, Some err)))
                 | Inr c \<Rightarrow> (st2\<lparr>cluster := c\<rparr>, None))))
      else (st, None))"

fun cleanupBlocks ::
  "azure_env \<Rightarrow> azure_piece list \<Rightarrow> azure_state
     \<Rightarrow> azure_state \<times> (Cluster option \<times> error option) go_result" where
  "cleanupBlocks env [] st = (st, Returned (Some (cluster st), None))"
| "cleanupBlocks env (p # ps) st =
     (case cleanupBlock env p st of
        (st1, Some r) \<Rightarrow> (st1, r)
      | (st1, None) \<Rightarrow> cleanupBlocks env ps st1)"

text \<open>The order of the blocks in the source.\<close>

definition cleanupOrder :: "azure_piece list" where
  "cleanupOrder = [SecurityGroupPiece, RouteTablePiece, SubnetPiece, VNetPiece,
                   AvailabilitySetPiece, ResourceGroupPiece]"

text \<open>\<open>pkg/provider/cloud/azure/provider.go\<close>, \<open>Azure.CleanUpCloudProvider\<close>.\<close>

definition CleanUpCloudProvider ::
  "azure_env \<Rightarrow> Cluster \<Rightarrow> azure_state \<times> (Cluster option \<times> error option) go_result" where
  "CleanUpCloudProvider env c =
     (let st = \<lparr>cluster = c, trace = []\<rparr> in
      case GetCredentialsForCluster_result env of
        Some err \<Rightarrow> (st, Returned (None, Some err))
      | None \<Rightarrow>
     (case GetClientSet_result env of
        Some err \<Rightarrow> (st, Returned (None, Some err))
      | None \<Rightarrow> cleanupBlocks env cleanupOrder st))"

text \<open>A delete call whose outcome lets its block go on to the updater: it succeeded, or it
  failed with an error that passes the test above. And the pieces whose finalizer a Cluster
  carries.\<close>

definition tolerated :: "azure_env \<Rightarrow> azure_piece \<Rightarrow> bool" where
  "tolerated env p = (case delete_result env p of None \<Rightarrow> True | Some err \<Rightarrow> isNotFoundDetailed err)"

definition present :: "Cluster \<Rightarrow> azure_piece \<Rightarrow> bool" where
  "present c p = (finalizerOf p \<in> set (Finalizers (Meta c)))"

text \<open>
  One block of \<open>Azure.reconcileCluster\<close>: the guard \<open>force || field == ""\<close> and the call of
  the piece's helper. The availability set has a second guard on \<open>AssignAvailabilitySet\<close>.
\<close>

fun specField :: "azure_piece \<Rightarrow> AzureCloudSpec \<Rightarrow> string" where
  "specField ResourceGroupPiece az = ResourceGroup az"
| "specField VNetPiece az = VNetName az"
| "specField SubnetPiece az = SubnetName az"
| "specField RouteTablePiece az = RouteTableName az"
| "specField SecurityGroupPiece az = SecurityGroup az"
| "specField AvailabilitySetPiece az = AvailabilitySet az"

text \<open>The inner test of the availability-set block,
  \<open>AssignAvailabilitySet == nil || *AssignAvailabilitySet\<close>; the other blocks have none.\<close>

fun assignGuard :: "azure_piece \<Rightarrow> AzureCloudSpec \<Rightarrow> bool" where
  "assignGuard AvailabilitySetPiece az =
     (case AssignAvailabilitySet az of None \<Rightarrow> True | Some assign \<Rightarrow> assign)"
| "assignGuard p az = True"

definition reconcileBlock ::
  "azure_env \<Rightarrow> bool \<Rightarrow> azure_piece \<Rightarrow> azure_state
     \<Rightarrow> azure_state \<times> (Cluster option \<times> error option) go_result option" where
  "reconcileBlock env force p st =
     (case Azure (Cloud (Spec (cluster st))) of
        None \<Rightarrow> (st, Some Panicked)
      | Some az \<Rightarrow>
         if (force \<or> specField p az = []) \<and> assignGuard p az then
           (let st1 = st\<lparr>trace := trace st @ [ReconcileCall p az]\<rparr> in
            case reconcile_helper env p (cluster st1) of
              Inl err \<Rightarrow> (st1, Some (Returned (None, Some err)))
            | Inr c \<Rightarrow> (st1\<lparr>cluster := c\<rparr>, None))
         else (st, None))"

fun reconcileBlocks ::
  "azure_env \<Rightarrow> bool \<Rightarrow> azure_piece list \<Rightarrow> azure_state
     \<Rightarrow> azure_state \<times> (Cluster option \<times> error option) go_result" where
  "reconcileBlocks env force [] st = (st, Returned (Some (cluster st), None))"
| "reconcileBlocks env force (p # ps) st =
     (case reconcileBlock env force p st of
        (st1, Some r) \<Rightarrow> (st1, r)
      | (st1, None) \<Rightarrow> reconcileBlocks env force ps st1)"

definition reconcileOrder :: "azure_piece list" where
  "reconcileOrder = [ResourceGroupPiece, VNetPiece, SubnetPiece, RouteTablePiece,
                     SecurityGroupPiece, AvailabilitySetPiece]"

text \<open>\<open>Azure.reconcileCluster\<close>; its \<open>setTags\<close> argument is not read by the function.\<close>

definition reconcileCluster ::
  "azure_env \<Rightarrow> Cluster \<Rightarrow> bool \<Rightarrow> bool
     \<Rightarrow> azure_state \<times> (Cluster option \<times> error option) go_result" where
  "reconcileCluster env c force setTags =
     (let st = \<lparr>cluster = c, trace = []\<rparr> in
      case GetCredentialsForCluster_result env of
        Some err \<Rightarrow> (st, Returned (None, Some err))
      | None \<Rightarrow>
     (case GetClientSet_result env of
        Some err \<Rightarrow> (st, Returned (None, Some err))
      | None \<Rightarrow> reconcileBlocks env force reconcileOrder st))"

definition InitializeCloudProvider ::
  "azure_env \<Rightarrow> Cluster \<Rightarrow> azure_state \<times> (Cluster option \<times> error option) go_result" where
  "InitializeCloudProvider env c = reconcileCluster env c False True"

definition ReconcileCluster ::
  "azure_env \<Rightarrow> Cluster \<Rightarrow> azure_state \<times> (Cluster option \<times> error option) go_result" where
  "ReconcileCluster env c = reconcileCluster env c True True"

text \<open>How a run of the cleanup blocks that returns an error has stopped: at piece \<open>p\<close>, after
  the pieces \<open>qs\<close>; either the delete call of \<open>p\<close> failed with an error that does not
  pass the test (the Cluster is returned with the error), or the updater failed (nil is
  returned).\<close>

definition stopped_at ::
  "azure_env \<Rightarrow> AzureCloudSpec \<Rightarrow> azure_state \<Rightarrow> azure_state \<Rightarrow> Cluster option \<Rightarrow> error
     \<Rightarrow> azure_piece list \<Rightarrow> azure_piece \<Rightarrow> bool" where
  "stopped_at env az st st' c' e qs p \<longleftrightarrow>
     present (cluster st) p
   \<and> fins st' = filter (\<lambda>f. f \<notin> finalizerOf ` set qs) (fins st)
   \<and> ((\<exists>err. delete_result env p = Some err \<and> \<not> isNotFoundDetailed err
          \<and> e = deleteFailure p az err \<and> c' = Some (cluster st')
          \<and> set (trace st') \<subseteq> set (trace st) \<union> DeleteCall ` set (qs @ [p]) \<union> UpdateCall ` set qs)
      \<or> (tolerated env p \<and> update_result env p = Some e \<and> c' = None
          \<and> set (trace st') \<subseteq> set (trace st) \<union> DeleteCall ` set (qs @ [p]) \<union> UpdateCall ` set (qs @ [p])))"


subsection \<open>Example inputs for the Azure provider\<close>

definition env_azure_ok :: azure_env where
  "env_azure_ok = \<lparr>GetCredentialsForCluster_result = None, GetClientSet_result = None,
     delete_result = (\<lambda>p. None), update_result = (\<lambda>p. None),
     reconcile_helper = (\<lambda>p c. Inr c)\<rparr>"

text \<open>The security group was deleted out of band: its delete call answers 404, as the SDK
  reports it, with a \<open>DetailedError\<close> struct value.\<close>

definition env_sg_gone :: azure_env where
  "env_sg_gone = env_azure_ok\<lparr>delete_result :=
     (\<lambda>p. None)(SecurityGroupPiece := Some (DetailedError 404 None))\<rparr>"

text \<open>The same answer, were it handed over as a pointer to the struct.\<close>

definition env_sg_gone_pointer :: azure_env where
  "env_sg_gone_pointer = env_azure_ok\<lparr>delete_result :=
     (\<lambda>p. None)(SecurityGroupPiece := Some (DetailedErrorPtr 404 None))\<rparr>"

text \<open>Deleting the route table is refused with status 403.\<close>

definition env_rt_forbidden :: azure_env where
  "env_rt_forbidden = env_azure_ok\<lparr>delete_result :=
     (\<lambda>p. None)(RouteTablePiece := Some (DetailedError 403 None))\<rparr>"

text \<open>Every delete call succeeds, and the seed API refuses every write.\<close>

definition env_update_conflict :: azure_env where
  "env_update_conflict = env_azure_ok\<lparr>update_result := (\<lambda>p. Some (StatusError ''Conflict''))\<rparr>"

text \<open>A Cluster none of whose Azure resources has been created yet.\<close>

definition fresh_azure :: AzureCloudSpec where
  "fresh_azure = \<lparr>ResourceGroup = [], VNetResourceGroup = [], VNetName = [],
     SubnetName = [], RouteTableName = [], SecurityGroup = [],
     AvailabilitySet = [], AssignAvailabilitySet = None, LoadBalancerSKU = ''basic''\<rparr>"

definition fresh_cluster :: Cluster where
  "fresh_cluster = (example_cluster [])\<lparr>Spec :=
      \<lparr>Cloud = \<lparr>DatacenterName = ''dc'', Azure = Some fresh_azure\<rparr>, Pause = False\<rparr>\<rparr>"

section \<open>Azure provider: AddICMPRulesIfRequired\<close>

definition denyAllTCPSecGroupRuleName :: string where
  "denyAllTCPSecGroupRuleName = ''deny_all_tcp''"

definition denyAllUDPSecGroupRuleName :: string where
  "denyAllUDPSecGroupRuleName = ''deny_all_udp''"

definition allowAllICMPSecGroupRuleName :: string where
  "allowAllICMPSecGroupRuleName = ''icmp_by_allow_all''"

text \<open>
  The SDK's \<open>network.SecurityGroup\<close>, as far as the function reads it: the name and the rule
  list are pointers, and the rule list sits behind the embedded pointer to the properties.
  Of a rule only the name is read; its other settings are kept as one string.
\<close>

record SecurityRule =
  RuleName :: "string option"
  RuleSettings :: string

record SecurityGroupPropertiesFormat =
  SecurityRules :: "SecurityRule list option"

record NetworkSecurityGroup =
  NSGName :: "string option"
  Tags :: "string \<rightharpoonup> string"
  Properties :: "SecurityGroupPropertiesFormat option"

datatype sg_event =
    SGGet string string
  | SGCreateOrUpdate string string NetworkSecurityGroup

text \<open>
  The answers of the outside, and the helpers of the package that are declared in other
  files: \<open>hasOwnershipTag\<close> and the three rule constructors are parameters of the model.
\<close>

record icmp_env =
  credentials_result :: "error option"
  getSecurityGroupsClient_result :: "error option"
  sgClient_Get_result :: "error + NetworkSecurityGroup"
  hasOwnershipTag :: "(string \<rightharpoonup> string) \<Rightarrow> Cluster \<Rightarrow> bool"
  sgClient_CreateOrUpdate_result :: "error option"
  tcpDenyAllRule :: SecurityRule
  udpDenyAllRule :: SecurityRule
  icmpAllowAllRule :: SecurityRule

text \<open>The loop over the rules: the three flags \<open>hasDenyAllTCPRule\<close>, \<open>hasDenyAllUDPRule\<close>,
  \<open>hasICMPAllowAllRule\<close>; a rule without a name is skipped.\<close>

fun scanRules :: "SecurityRule list \<Rightarrow> bool \<times> bool \<times> bool \<Rightarrow> bool \<times> bool \<times> bool" where
  "scanRules [] flags = flags"
| "scanRules (rule # rules) (hasTCP, hasUDP, hasICMP) =
     (case RuleName rule of
        None \<Rightarrow> scanRules rules (hasTCP, hasUDP, hasICMP)
      | Some name \<Rightarrow>
          if name = denyAllTCPSecGroupRuleName then scanRules rules (True, hasUDP, hasICMP)
          else if name = denyAllUDPSecGroupRuleName then scanRules rules (hasTCP, True, hasICMP)
          else if name = allowAllICMPSecGroupRuleName then scanRules rules (hasTCP, hasUDP, True)
          else scanRules rules (hasTCP, hasUDP, hasICMP))"

text \<open>\<open>Azure.AddICMPRulesIfRequired\<close>: the remote calls made, and the returned error or the
  panic.\<close>

definition AddICMPRulesIfRequired :: "icmp_env \<Rightarrow> Cluster \<Rightarrow> sg_event list \<times> error option go_result" where
  "AddICMPRulesIfRequired env c =
     (case credentials_result env of
        Some err \<Rightarrow> ([], Returned (Some err))
      | None \<Rightarrow>
     (case Azure (Cloud (Spec c)) of
        None \<Rightarrow> ([], Panicked)
      | Some azure \<Rightarrow>
     if SecurityGroup azure = [] then ([], Returned None)
     else
     (case getSecurityGroupsClient_result env of
        Some err \<Rightarrow> ([], Returned (Some (Wrapf ''failed to get security group client: %w'' [] err)))
      | None \<Rightarrow>
     (let tr = [SGGet (ResourceGroup azure) (SecurityGroup azure)] in
      case sgClient_Get_result env of
        Inl err \<Rightarrow>
          (tr, Returned (Some (Wrapf ''failed to get security group %q: %w'' [SecurityGroup azure] err)))
      | Inr sg \<Rightarrow>
     if \<not> hasOwnershipTag env (Tags sg) c then (tr, Returned None)
     else
     (case Properties sg of
        None \<Rightarrow> (tr, Panicked)
      | Some props \<Rightarrow>
     (case (case SecurityRules props of
              None \<Rightarrow> (False, False, False)
            | Some rules \<Rightarrow> scanRules rules (False, False, False)) of
        (hasDenyAllTCPRule, hasDenyAllUDPRule, hasICMPAllowAllRule) \<Rightarrow>
     (let newSecurityRules =
            (if \<not> hasDenyAllTCPRule then [tcpDenyAllRule env] else [])
          @ (if \<not> hasDenyAllUDPRule then [udpDenyAllRule env] else [])
          @ (if \<not> hasICMPAllowAllRule then [icmpAllowAllRule env] else [])
      in
      if length newSecurityRules > 0 then
        (case SecurityRules props of
           None \<Rightarrow> (tr, Panicked)
         | Some rules \<Rightarrow>
            (let sg' = sg\<lparr>Properties := Some (props\<lparr>SecurityRules := Some (rules @ newSecurityRules)\<rparr>)\<rparr>;
                 tr' = tr @ [SGCreateOrUpdate (ResourceGroup azure) (SecurityGroup azure) sg']
             in case sgClient_CreateOrUpdate_result env of
                  Some err \<Rightarrow>
                    (case NSGName sg' of
                       None \<Rightarrow> (tr', Panicked)
                     | Some name \<Rightarrow>
                         (tr', Returned (Some (Wrapf
                            ''failed to add new rules to security group %q: %w'' [name] err))))
                | None \<Rightarrow> (tr', Returned None)))
      else (tr, Returned None))))))))"

text \<open>The update calls among the remote calls.\<close>

fun isUpdate :: "sg_event \<Rightarrow> bool" where
  "isUpdate (SGCreateOrUpdate rg name sg) = True"
| "isUpdate ev = False"

text \<open>Whether a rule of that name is in the list.\<close>

definition hasRule :: "string \<Rightarrow> SecurityRule list \<Rightarrow> bool" where
  "hasRule name rules = list_ex (\<lambda>rule. RuleName rule = Some name) rules"

subsection \<open>Example inputs for AddICMPRulesIfRequired\<close>

text \<open>A security group of this system (it carries the ownership tag) whose rule list pointer
  is nil.\<close>

definition sg_without_rules :: NetworkSecurityGroup where
  "sg_without_rules = \<lparr>NSGName = Some ''sg'', Tags = [''cluster'' \<mapsto> ''c1''],
     Properties = Some \<lparr>SecurityRules = None\<rparr>\<rparr>"

definition icmp_env_example :: "NetworkSecurityGroup \<Rightarrow> icmp_env" where
  "icmp_env_example sg = \<lparr>credentials_result = None, getSecurityGroupsClient_result = None,
     sgClient_Get_result = Inr sg,
     hasOwnershipTag = (\<lambda>tags cl. tags ''cluster'' = Some (Name (Meta cl))),
     sgClient_CreateOrUpdate_result = None,
     tcpDenyAllRule = \<lparr>RuleName = Some denyAllTCPSecGroupRuleName, RuleSettings = ''deny tcp''\<rparr>,
     udpDenyAllRule = \<lparr>RuleName = Some denyAllUDPSecGroupRuleName, RuleSettings = ''deny udp''\<rparr>,
     icmpAllowAllRule = \<lparr>RuleName = Some allowAllICMPSecGroupRuleName, RuleSettings = ''allow icmp''\<rparr>\<rparr>"

section \<open>Cluster controller\<close>

text \<open>\<open>reconcile.Result\<close>; a \<open>time.Duration\<close> counts nanoseconds.\<close>

record Result =
  Requeue :: bool
  RequeueAfter :: int

definition Second :: int where
  "Second = 1000000000"

definition Minute :: int where
  "Minute = 60 * Second"

definition emptyResult :: Result where
  "emptyResult = \<lparr>Requeue = False, RequeueAfter = 0\<rparr>"

datatype controller_event =
    StatusUpdateCall
  | PatchCall Cluster Cluster
  | EventRecorded string string
  | AvailabilityCheck
  | InnerReconcile
  | SyncHealthCall
  | CleanupPass "deletion_event list"
  | ReconcileClusterCall

type_synonym controller_state = "controller_event run_state"

text \<open>
  What the outside answers to the cluster controller: the seed API (get, patch, status
  update), \<open>ClusterAvailableForReconciling\<close>, the health sync, the controller's own
  \<open>reconcileCluster\<close> (kept in another file; it is where the cloud provider is reconciled),
  the deletion pipeline's environment, \<open>kubernetesprovider.NamespaceName\<close> and the rendering
  \<open>err.Error()\<close> of an error.
\<close>

record controller_env =
  Get_result :: "error + Cluster"
  reconcileClusterStatus_result :: "error option"
  workerName :: string
  concurrentClusterUpdates :: int
  ClusterAvailableForReconciling_result :: "bool \<times> error option"
  Patch_result :: "error option"
  syncHealth_result :: "error option"
  deletion :: deletion_env
  controllerReconcileCluster_result :: "Result option \<times> error option"
  updateClusterError_result :: "error option"
  clearClusterError_result :: "error option"
  NamespaceNameOf :: "string \<Rightarrow> string"
  errorText :: "error \<Rightarrow> string"

text \<open>\<open>Reconciler.updateCluster\<close>. \<open>reflect.DeepEqual\<close> on the two objects is equality of the
  records. \<open>modify\<close> works on the caller's object, so the changed Cluster stays in the state
  whatever is returned.\<close>

definition updateCluster ::
  "controller_env \<Rightarrow> (Cluster \<Rightarrow> Cluster) \<Rightarrow> controller_state \<Rightarrow> controller_state \<times> error option" where
  "updateCluster env modify st =
     (let oldCluster = cluster st;
          st1 = st\<lparr>cluster := modify (cluster st)\<rparr>
      in
      if oldCluster = cluster st1 then (st1, None)
      else if Status oldCluster \<noteq> Status (cluster st1) then
        (st1, Some (ErrorsNew ''updateCluster must not change cluster status''))
      else
        (case Patch_result env of
           Some err \<Rightarrow> (st1\<lparr>trace := trace st1 @ [PatchCall oldCluster (cluster st1)]\<rparr>, Some err)
         | None \<Rightarrow> (st1\<lparr>trace := trace st1 @ [PatchCall oldCluster (cluster st1)]\<rparr>, None)))"

text \<open>
  Modelled from the spec: \<open>kubermaticv1helper.UpdateClusterStatus\<close> is declared outside the
  sources at hand; it is the status counterpart of the patch above ("the controller first
  stamps default status fields ... before any reconciliation is attempted"). The first
  argument is the seed API's answer.
\<close>

definition UpdateClusterStatus ::
  "error option \<Rightarrow> (Cluster \<Rightarrow> Cluster) \<Rightarrow> controller_state \<Rightarrow> controller_state \<times> error option" where
  "UpdateClusterStatus api modify st =
     (let st1 = st\<lparr>trace := trace st @ [StatusUpdateCall]\<rparr> in
      case api of
        Some err \<Rightarrow> (st1, Some err)
      | None \<Rightarrow> (st1\<lparr>cluster := modify (cluster st1)\<rparr>, None))"

text \<open>\<open>Reconciler.reconcileClusterStatus\<close>.\<close>

definition reconcileClusterStatus :: "controller_env \<Rightarrow> controller_state \<Rightarrow> controller_state \<times> error option" where
  "reconcileClusterStatus env st =
     UpdateClusterStatus (reconcileClusterStatus_result env)
       (\<lambda>c. if NamespaceName (Status c) = []
            then c\<lparr>Status := (Status c)\<lparr>NamespaceName := NamespaceNameOf env (Name (Meta (cluster st)))\<rparr>\<rparr>
            else c)
       st"

definition ReconcileClusterError :: string where
  "ReconcileClusterError = ''ReconcileClusterError''"

text \<open>\<open>Reconciler.updateClusterError\<close> and \<open>Reconciler.clearClusterError\<close>.\<close>

definition updateClusterError ::
  "controller_env \<Rightarrow> string \<Rightarrow> string \<Rightarrow> controller_state \<Rightarrow> controller_state \<times> error option" where
  "updateClusterError env reason message st =
     (case UpdateClusterStatus (updateClusterError_result env)
             (\<lambda>c. c\<lparr>Status := (Status c)\<lparr>ErrorMessage := Some message, ErrorReason := Some reason\<rparr>\<rparr>) st of
        (st1, Some err) \<Rightarrow>
          (st1, Some (Wrapf ''failed to set error status on cluster to: errorReason=%q errorMessage=%q. Could not update cluster: %w''
                        [reason, message] err))
      | (st1, None) \<Rightarrow> (st1, None))"

definition clearClusterError :: "controller_env \<Rightarrow> controller_state \<Rightarrow> controller_state \<times> error option" where
  "clearClusterError env st =
     UpdateClusterStatus (clearClusterError_result env)
       (\<lambda>c. c\<lparr>Status := (Status c)\<lparr>ErrorMessage := None, ErrorReason := None\<rparr>\<rparr>) st"

text \<open>\<open>Reconciler.reconcile\<close>, the inner reconcile: health sync, then either the deletion
  pipeline (always requeued after ten seconds) or the reconciliation of the cluster.\<close>

definition reconcile ::
  "controller_env \<Rightarrow> controller_state \<Rightarrow> controller_state \<times> Result option \<times> error option" where
  "reconcile env st =
     (let st0 = st\<lparr>trace := trace st @ [InnerReconcile, SyncHealthCall]\<rparr> in
      case syncHealth_result env of
        Some err \<Rightarrow> (st0, None, Some (Wrapf ''failed to sync health: %w'' [] err))
      | None \<Rightarrow>
      if DeletionTimestamp (Meta (cluster st0)) \<noteq> None then
        (case CleanupCluster (deletion env) (cluster st0) of
           (dst, err) \<Rightarrow>
             (st0\<lparr>cluster := cluster dst, trace := trace st0 @ [CleanupPass (trace dst)]\<rparr>,
              Some \<lparr>Requeue = False, RequeueAfter = 10 * Second\<rparr>, err))
      else
        (let st1 = st0\<lparr>trace := trace st0 @ [ReconcileClusterCall]\<rparr> in
         case controllerReconcileCluster_result env of
           (res, Some err) \<Rightarrow>
             (case updateClusterError env ReconcileClusterError (errorText env err) st1 of
                (st2, Some updateErr) \<Rightarrow>
                  (st2, None, Some (Wrapf ''failed to set the cluster error: %w'' [] updateErr))
              | (st2, None) \<Rightarrow>
                  (st2, None, Some (Wrapf ''failed to reconcile cluster: %w'' [] err)))
         | (res, None) \<Rightarrow>
             (case clearClusterError env st1 of
                (st2, Some err) \<Rightarrow>
                  (st2, None, Some (Wrapf ''failed to clear error on cluster: %w'' [] err))
              | (st2, None) \<Rightarrow> (st2, res, None))))"

text \<open>
  Modelled from the spec: \<open>kubermaticv1helper.ClusterReconcileWrapper\<close> is declared outside
  the sources at hand. The spec: "on each reconcile invocation, the wrapper (a) skips entirely
  if the cluster is paused/not owned by this worker ... or lacks a control-plane version yet,
  (b) otherwise invokes the inner reconcile function, (c) on success sets the condition true
  and clears any stored error reason/message, (d) on failure sets the condition false, stores
  the error, and still allows a non-nil explicit Result (e.g. a requeue delay) to flow
  through". The worker that owns a cluster is named by a label of the cluster.
\<close>

definition WorkerNameLabelKey :: string where
  "WorkerNameLabelKey = ''worker-name''"

definition label :: "ObjectMeta \<Rightarrow> string \<Rightarrow> string" where
  "label obj key = (case Labels obj key of None \<Rightarrow> [] | Some v \<Rightarrow> v)"

definition ClusterReconcileWrapper ::
  "(error \<Rightarrow> string) \<Rightarrow> string \<Rightarrow> string
     \<Rightarrow> (('e, 'z) run_state_scheme \<Rightarrow> ('e, 'z) run_state_scheme \<times> Result option \<times> error option)
     \<Rightarrow> ('e, 'z) run_state_scheme
     \<Rightarrow> ('e, 'z) run_state_scheme \<times> Result option \<times> error option" where
  "ClusterReconcileWrapper render worker conditionType inner st =
     (if Pause (Spec (cluster st))
         \<or> label (Meta (cluster st)) WorkerNameLabelKey \<noteq> worker
         \<or> ControlPlane (Versions (Status (cluster st))) = []
      then (st, None, None)
      else
        (case inner st of
           (st1, result, None) \<Rightarrow>
             (st1\<lparr>cluster := (cluster st1)\<lparr>Status := (Status (cluster st1))
                  \<lparr>ErrorReason := None, ErrorMessage := None,
                   Conditions := (Conditions (Status (cluster st1)))(conditionType \<mapsto> True)\<rparr>\<rparr>\<rparr>,
              result, None)
         | (st1, result, Some err) \<Rightarrow>
             (st1\<lparr>cluster := (cluster st1)\<lparr>Status := (Status (cluster st1))
                  \<lparr>ErrorMessage := Some (render err),
                   Conditions := (Conditions (Status (cluster st1)))(conditionType \<mapsto> False)\<rparr>\<rparr>\<rparr>,
              result, Some err)))"

definition ClusterConditionClusterControllerReconcilingSuccess :: string where
  "ClusterConditionClusterControllerReconcilingSuccess = ''ClusterControllerReconciledSuccessfully''"

text \<open>The function literal handed to the wrapper in \<open>Reconciler.Reconcile\<close>: the admission
  check against \<open>concurrentClusterUpdates\<close>, then the inner reconcile.\<close>

definition admitted ::
  "controller_env \<Rightarrow> controller_state \<Rightarrow> controller_state \<times> Result option \<times> error option" where
  "admitted env st =
     (let st1 = st\<lparr>trace := trace st @ [AvailabilityCheck]\<rparr> in
      case ClusterAvailableForReconciling_result env of
        (available, err) \<Rightarrow>
          if \<not> available \<or> err \<noteq> None then
            (st1, Some \<lparr>Requeue = False, RequeueAfter = 10 * Second\<rparr>, err)
          else reconcile env st1)"

text \<open>\<open>Reconciler.Reconcile\<close> of the cluster controller (\<open>kkp-kubernetes-controller\<close>): the
  trace of the pass, the returned result and the returned error.\<close>

definition Reconcile :: "controller_env \<Rightarrow> controller_event list \<times> Result \<times> error option" where
  "Reconcile env =
     (case Get_result env of
        Inl err \<Rightarrow>
          if IsNotFound err then ([], emptyResult, None) else ([], emptyResult, Some err)
      | Inr c \<Rightarrow>
     (case reconcileClusterStatus env \<lparr>cluster = c, trace = []\<rparr> of
        (st1, Some err) \<Rightarrow>
          (trace st1 @ [EventRecorded ''ReconcilingError'' (errorText env err)],
           emptyResult, Some err)
      | (st1, None) \<Rightarrow>
     if ControlPlane (Versions (Status (cluster st1))) = [] then (trace st1, emptyResult, None)
     else
     (case ClusterReconcileWrapper (errorText env) (workerName env)
             ClusterConditionClusterControllerReconcilingSuccess (admitted env) st1 of
        (st2, result, err) \<Rightarrow>
          (trace st2 @ (case err of
                          None \<Rightarrow> []
                        | Some e \<Rightarrow> [EventRecorded ''ReconcilingError'' (errorText env e)]),
           (case result of None \<Rightarrow> emptyResult | Some r \<Rightarrow> r),
           err))))"

subsection \<open>Example inputs for the cluster controller\<close>

text \<open>A seed on which the limit of concurrent cluster updates is reached.\<close>

definition controller_env_busy :: controller_env where
  "controller_env_busy = \<lparr>Get_result = Inr (example_cluster []),
     reconcileClusterStatus_result = None, workerName = [], concurrentClusterUpdates = 1,
     ClusterAvailableForReconciling_result = (False, None), Patch_result = None,
     syncHealth_result = None, deletion = env_all_done,
     controllerReconcileCluster_result = (None, None),
     updateClusterError_result = None, clearClusterError_result = None,
     NamespaceNameOf = (\<lambda>name. ''cluster-'' @ name), errorText = (\<lambda>err. ''error'')\<rparr>"

text \<open>Two modify functions: one adds a finalizer, one writes into the status.\<close>

definition addFinalizer :: "string \<Rightarrow> Cluster \<Rightarrow> Cluster" where
  "addFinalizer f c = c\<lparr>Meta := (Meta c)\<lparr>Finalizers := Finalizers (Meta c) @ [f]\<rparr>\<rparr>"

definition setErrorMessage :: "string \<Rightarrow> Cluster \<Rightarrow> Cluster" where
  "setErrorMessage m c = c\<lparr>Status := (Status c)\<lparr>ErrorMessage := Some m\<rparr>\<rparr>"

section \<open>Addon controller\<close>

definition cleanupFinalizerName :: string where
  "cleanupFinalizerName = ''cleanup-manifests''"

definition addonEnsureLabelKey :: string where
  "addonEnsureLabelKey = ''addons.kubermatic.io/ensure''"

definition ClusterConditionAddonControllerReconcilingSuccess :: string where
  "ClusterConditionAddonControllerReconcilingSuccess = ''AddonControllerReconciledSuccessfully''"

text \<open>
  The Addon object, as far as the reconciler reads it: its metadata, the name of the
  cluster it belongs to (\<open>Spec.Cluster.Name\<close>), the addon's name (\<open>Spec.Name\<close>), the
  required resource types (group, version, kind), and whether the condition
  \<open>AddonResourcesCreated\<close> has status true.
\<close>

record Addon =
  AddonMeta :: ObjectMeta
  AddonCluster :: string
  AddonName :: string
  RequiredResourceTypes :: "(string \<times> string \<times> string) list"
  ResourcesCreated :: bool

datatype addon_event =
    AddonGetCall
  | ClusterGetCall string
  | RemoveCleanupFinalizerCall
  | AddonInnerReconcile
  | GetClientCall
  | ListCall "string \<times> string \<times> string"
  | CleanupManifestsCall
  | EnsureIsInstalledCall
  | EnsureFinalizerCall
  | ConditionPatchCall
  | AddonEventRecorded string string
  | ClusterEventRecorded string string "string list"

record 'e addon_state = "'e run_state" +
  addon :: Addon

text \<open>What listing one required resource type in the tenant cluster answers: it is served,
  no such kind is served (\<open>meta.IsNoMatchError\<close>), or another error.\<close>

datatype list_outcome = ListServed | ListNoMatch | ListFailed error

text \<open>
  What the outside answers to the addon controller: the seed API (the two reads, the
  removal and the addition of the finalizer, the status patch), the tenant cluster (the
  client, the lists), and the two steps that render the manifests to files and run the
  external command on them, \<open>cleanupManifests\<close> and \<open>ensureIsInstalled\<close>, whose outcome is taken
  as it comes.
\<close>

record addon_env =
  addonGet_result :: "error + Addon"
  clusterGet_result :: "error + Cluster"
  removeCleanupFinalizer_result :: "error option"
  addonWorkerName :: string
  addonEnforceInterval :: int
  tenantGetClient_result :: "error option"
  tenantList_result :: "string \<times> string \<times> string \<Rightarrow> list_outcome"
  cleanupManifests_result :: "error option"
  ensureIsInstalled_result :: "error option"
  ensureFinalizerIsSet_result :: "error option"
  conditionPatch_result :: "error option"
  addonErrorText :: "error \<Rightarrow> string"

text \<open>\<open>Reconciler.removeCleanupFinalizer\<close>: \<open>TryRemoveFinalizer\<close> on the addon.\<close>

definition removeCleanupFinalizer :: "addon_env \<Rightarrow> Addon \<Rightarrow> Addon \<times> error option" where
  "removeCleanupFinalizer env a =
     (case TryRemoveFinalizer (removeCleanupFinalizer_result env) (AddonMeta a) [cleanupFinalizerName] of
        (obj, err) \<Rightarrow> (a\<lparr>AddonMeta := obj\<rparr>, err))"

definition formatGVK :: "string \<times> string \<times> string \<Rightarrow> string" where
  "formatGVK gvk = (case gvk of (g, v, k) \<Rightarrow> g @ ''/'' @ v @ '' '' @ k)"

text \<open>The loop of \<open>ensureRequiredResourceTypesExist\<close> over the required resource types.\<close>

fun listRequired ::
  "addon_env \<Rightarrow> (string \<times> string \<times> string) list \<Rightarrow> addon_event list
     \<Rightarrow> addon_event list \<times> Result option \<times> error option" where
  "listRequired env [] tr = (tr, None, None)"
| "listRequired env (requiredResource # rest) tr =
     (case tenantList_result env requiredResource of
        ListServed \<Rightarrow> listRequired env rest (tr @ [ListCall requiredResource])
      | ListNoMatch \<Rightarrow>
          (tr @ [ListCall requiredResource],
           Some \<lparr>Requeue = False, RequeueAfter = 10 * Second\<rparr>, None)
      | ListFailed err \<Rightarrow>
          (tr @ [ListCall requiredResource], None,
           Some (Wrapf ''failed to check if type %q is served: %w'' [formatGVK requiredResource] err)))"

text \<open>\<open>Reconciler.ensureRequiredResourceTypesExist\<close>.\<close>

definition ensureRequiredResourceTypesExist ::
  "addon_env \<Rightarrow> ('e, 'z) addon_state_scheme \<Rightarrow> addon_event list \<times> Result option \<times> error option" where
  "ensureRequiredResourceTypesExist env st =
     (if length (RequiredResourceTypes (addon st)) = 0 then ([], None, None)
      else
        (case tenantGetClient_result env of
           Some err \<Rightarrow>
             ([GetClientCall], None, Some (Wrapf ''failed to get client for usercluster: %w'' [] err))
         | None \<Rightarrow> listRequired env (RequiredResourceTypes (addon st)) [GetClientCall]))"

text \<open>\<open>addonResourcesCreated\<close> and \<open>hasEnsureResourcesLabel\<close>.\<close>

definition addonResourcesCreated :: "Addon \<Rightarrow> bool" where
  "addonResourcesCreated a = ResourcesCreated a"

definition hasEnsureResourcesLabel :: "Addon \<Rightarrow> bool" where
  "hasEnsureResourcesLabel a = (label (AddonMeta a) addonEnsureLabelKey = ''true'')"

text \<open>
  Modelled from the spec: \<open>TryAddFinalizer\<close> of \<open>pkg/kubernetes\<close>, the counterpart of
  \<open>TryRemoveFinalizer\<close> ("add/remove/has operations" of a duplicate-free ordered set).
\<close>

definition TryAddFinalizer :: "error option \<Rightarrow> ObjectMeta \<Rightarrow> string list \<Rightarrow> ObjectMeta \<times> error option" where
  "TryAddFinalizer api obj finalizers =
     (case api of
        Some e \<Rightarrow> (obj, Some e)
      | None \<Rightarrow>
          (obj\<lparr>Finalizers := Finalizers obj @ filter (\<lambda>f. f \<notin> set (Finalizers obj)) (remdups finalizers)\<rparr>,
           None))"

text \<open>\<open>Reconciler.ensureResourcesCreatedConditionIsSet\<close>.\<close>

definition ensureResourcesCreatedConditionIsSet ::
  "addon_env \<Rightarrow> (addon_event, 'z) addon_state_scheme
     \<Rightarrow> (addon_event, 'z) addon_state_scheme \<times> error option" where
  "ensureResourcesCreatedConditionIsSet env st =
     (if ResourcesCreated (addon st) then (st, None)
      else
        (st\<lparr>addon := (addon st)\<lparr>ResourcesCreated := True\<rparr>,
            trace := trace st @ [ConditionPatchCall]\<rparr>,
         conditionPatch_result env))"

text \<open>\<open>Reconciler.reconcile\<close> of the addon controller, the function the wrapper runs.\<close>

definition addonReconcile ::
  "addon_env \<Rightarrow> (addon_event, 'z) addon_state_scheme
     \<Rightarrow> (addon_event, 'z) addon_state_scheme \<times> Result option \<times> error option" where
  "addonReconcile env st0 =
     (let st = st0\<lparr>trace := trace st0 @ [AddonInnerReconcile]\<rparr> in
      if Apiserver (ExtendedHealth (Status (cluster st))) \<noteq> HealthStatusUp then
        (st, Some \<lparr>Requeue = False, RequeueAfter = 10 * Second\<rparr>, None)
      else
      (case ensureRequiredResourceTypesExist env st of
         (evs, reqeueAfter, Some err) \<Rightarrow>
           (st\<lparr>trace := trace st @ evs\<rparr>, None,
            Some (Wrapf ''failed to check if all required resources exist: %w'' [] err))
       | (evs, Some reqeueAfter, None) \<Rightarrow> (st\<lparr>trace := trace st @ evs\<rparr>, Some reqeueAfter, None)
       | (evs, None, None) \<Rightarrow>
      (let st1 = st\<lparr>trace := trace st @ evs\<rparr> in
       if DeletionTimestamp (AddonMeta (addon st1)) \<noteq> None then
         (let st2 = st1\<lparr>trace := trace st1 @ [CleanupManifestsCall]\<rparr> in
          case cleanupManifests_result env of
            Some err \<Rightarrow>
              (st2, None, Some (Wrapf ''failed to delete manifests from cluster: %w'' [] err))
          | None \<Rightarrow>
         (let st3 = st2\<lparr>trace := trace st2 @ [RemoveCleanupFinalizerCall]\<rparr> in
          case removeCleanupFinalizer env (addon st3) of
            (a, Some err) \<Rightarrow>
              (st3\<lparr>addon := a\<rparr>, None,
               Some (Wrapf ''failed to ensure that the cleanup finalizer got removed from the addon: %w''
                       [] err))
          | (a, None) \<Rightarrow> (st3\<lparr>addon := a\<rparr>, None, None)))
       else if addonResourcesCreated (addon st1) \<and> \<not> hasEnsureResourcesLabel (addon st1) then
         (st1, None, None)
       else
         (let st2 = st1\<lparr>trace := trace st1 @ [EnsureIsInstalledCall]\<rparr> in
          case ensureIsInstalled_result env of
            Some err \<Rightarrow>
              (st2, None,
               Some (Wrapf ''failed to deploy the addon manifests into the cluster: %w'' [] err))
          | None \<Rightarrow>
         (let st3 = st2\<lparr>trace := trace st2 @ [EnsureFinalizerCall]\<rparr> in
          case TryAddFinalizer (ensureFinalizerIsSet_result env) (AddonMeta (addon st3))
                 [cleanupFinalizerName] of
            (obj, Some err) \<Rightarrow>
              (st3, None,
               Some (Wrapf ''failed to ensure that the cleanup finalizer exists on the addon: %w''
                       [] err))
          | (obj, None) \<Rightarrow>
         (case ensureResourcesCreatedConditionIsSet env
                 (st3\<lparr>addon := (addon st3)\<lparr>AddonMeta := obj\<rparr>\<rparr>) of
            (st4, Some err) \<Rightarrow>
              (st4, None, Some (Wrapf ''failed to set add ResourcesCreated Condition: %w'' [] err))
          | (st4, None) \<Rightarrow> (st4, None, None)))))))"

text \<open>
  \<open>Reconciler.Reconcile\<close> of the addon controller (\<open>kkp-addon-controller\<close>): the calls made,
  the Addon as the pass leaves it (if it was read), the returned result and the returned
  error.
\<close>

definition AddonReconcile ::
  "addon_env \<Rightarrow> addon_event list \<times> Addon option \<times> Result \<times> error option" where
  "AddonReconcile env =
     (case addonGet_result env of
        Inl err \<Rightarrow>
          if IsNotFound err then ([AddonGetCall], None, emptyResult, None)
          else ([AddonGetCall], None, emptyResult, Some err)
      | Inr a \<Rightarrow>
     (let tr = [AddonGetCall, ClusterGetCall (AddonCluster a)] in
      case clusterGet_result env of
        Inl err \<Rightarrow>
          if \<not> IsNotFound err then (tr, Some a, emptyResult, Some err)
          else
            (case removeCleanupFinalizer env a of
               (a1, Some err1) \<Rightarrow>
                 (tr @ [RemoveCleanupFinalizerCall], Some a1, emptyResult,
                  Some (Wrapf ''failed to remove addon cleanup finalizer: %w'' [] err1))
             | (a1, None) \<Rightarrow>
                 (tr @ [RemoveCleanupFinalizerCall], Some a1, emptyResult, None))
      | Inr c \<Rightarrow>
     if ControlPlane (Versions (Status c)) = [] then (tr, Some a, emptyResult, None)
     else
     (case ClusterReconcileWrapper (addonErrorText env) (addonWorkerName env)
             ClusterConditionAddonControllerReconcilingSuccess (addonReconcile env)
             \<lparr>cluster = c, trace = tr, addon = a\<rparr> of
        (st, result, err) \<Rightarrow>
          (trace st @ (case err of
                         None \<Rightarrow> []
                       | Some e \<Rightarrow>
                           [AddonEventRecorded ''ReconcilingError'' (addonErrorText env e),
                            ClusterEventRecorded ''ReconcilingError''
                              ''failed to reconcile Addon %q: %v''
                              [Name (AddonMeta (addon st)), addonErrorText env e]]),
           Some (addon st),
           (case result of
              Some r \<Rightarrow> r
            | None \<Rightarrow>
                (if addonEnforceInterval env \<noteq> 0
                 then emptyResult\<lparr>RequeueAfter := addonEnforceInterval env * Minute\<rparr>
                 else emptyResult)),
           err))))"

subsection \<open>Example inputs for the addon controller\<close>

definition example_addon :: Addon where
  "example_addon = \<lparr>AddonMeta = \<lparr>Name = ''dns'', Labels = Map.empty,
       Finalizers = [cleanupFinalizerName], DeletionTimestamp = Some 1\<rparr>,
     AddonCluster = ''c1'', AddonName = ''dns'', RequiredResourceTypes = [],
     ResourcesCreated = True\<rparr>"

text \<open>The addon's cluster does not exist any more.\<close>

definition addon_env_cluster_gone :: addon_env where
  "addon_env_cluster_gone = \<lparr>addonGet_result = Inr example_addon,
     clusterGet_result = Inl (StatusError ''NotFound''),
     removeCleanupFinalizer_result = None, addonWorkerName = [], addonEnforceInterval = 0,
     tenantGetClient_result = None, tenantList_result = (\<lambda>gvk. ListServed),
     cleanupManifests_result = None, ensureIsInstalled_result = None,
     ensureFinalizerIsSet_result = None, conditionPatch_result = None,
     addonErrorText = (\<lambda>err. ''error'')\<rparr>"

text \<open>The same, and the seed API refuses the write that removes the finalizer.\<close>

definition addon_env_write_refused :: addon_env where
  "addon_env_write_refused =
     addon_env_cluster_gone\<lparr>removeCleanupFinalizer_result := Some (StatusError ''Conflict'')\<rparr>"

section \<open>Verified properties: Azure cloud-spec update validation\<close>

text \<open>
  C5. For two cloud specs whose Azure sub-specs are both non-nil: a non-empty old resource
  group that differs from the new one makes \<open>ValidateCloudSpecUpdate\<close> return an error;
  with an empty old resource group and the other guarded fields (VNet resource group, VNet,
  subnet, route table, security group, availability set) unchanged, it returns no error,
  whatever the new resource group is.
\<close>

theorem ValidateCloudSpecUpdate_resource_group:
  assumes "Azure oldSpec = Some old" and "Azure newSpec = Some new"
  shows "(ResourceGroup old \<noteq> [] \<and> ResourceGroup old \<noteq> ResourceGroup new
            \<longrightarrow> ValidateCloudSpecUpdate oldSpec newSpec \<noteq> None)
       \<and> (ResourceGroup old = []
            \<and> VNetResourceGroup new = VNetResourceGroup old \<and> VNetName new = VNetName old
            \<and> SubnetName new = SubnetName old \<and> RouteTableName new = RouteTableName old
            \<and> SecurityGroup new = SecurityGroup old \<and> AvailabilitySet new = AvailabilitySet old
            \<longrightarrow> ValidateCloudSpecUpdate oldSpec newSpec = None)"
  using assms by (simp add: ValidateCloudSpecUpdate_def)

theorem ValidateCloudSpecUpdate_resource_group_witness:
  "ValidateCloudSpecUpdate
     \<lparr>DatacenterName = ''dc'', Azure = Some \<lparr>ResourceGroup = ''rg-a'', VNetResourceGroup = [],
        VNetName = ''vnet'', SubnetName = [], RouteTableName = [], SecurityGroup = [],
        AvailabilitySet = [], AssignAvailabilitySet = None, LoadBalancerSKU = ''basic''\<rparr>\<rparr>
     \<lparr>DatacenterName = ''dc'', Azure = Some \<lparr>ResourceGroup = ''rg-b'', VNetResourceGroup = [],
        VNetName = ''vnet'', SubnetName = [], RouteTableName = [], SecurityGroup = [],
        AvailabilitySet = [], AssignAvailabilitySet = None, LoadBalancerSKU = ''basic''\<rparr>\<rparr> \<noteq> None
   \<and> ValidateCloudSpecUpdate
     \<lparr>DatacenterName = ''dc'', Azure = Some \<lparr>ResourceGroup = [], VNetResourceGroup = [],
        VNetName = ''vnet'', SubnetName = [], RouteTableName = [], SecurityGroup = [],
        AvailabilitySet = [], AssignAvailabilitySet = None, LoadBalancerSKU = ''basic''\<rparr>\<rparr>
     \<lparr>DatacenterName = ''dc'', Azure = Some \<lparr>ResourceGroup = ''rg-b'', VNetResourceGroup = [],
        VNetName = ''vnet'', SubnetName = [], RouteTableName = [], SecurityGroup = [],
        AvailabilitySet = [], AssignAvailabilitySet = None, LoadBalancerSKU = ''basic''\<rparr>\<rparr> = None"
  using ValidateCloudSpecUpdate_resource_group
          [of "\<lparr>DatacenterName = ''dc'', Azure = Some \<lparr>ResourceGroup = ''rg-a'', VNetResourceGroup = [],
                  VNetName = ''vnet'', SubnetName = [], RouteTableName = [], SecurityGroup = [],
                  AvailabilitySet = [], AssignAvailabilitySet = None, LoadBalancerSKU = ''basic''\<rparr>\<rparr>"
              "\<lparr>ResourceGroup = ''rg-a'', VNetResourceGroup = [],
                  VNetName = ''vnet'', SubnetName = [], RouteTableName = [], SecurityGroup = [],
                  AvailabilitySet = [], AssignAvailabilitySet = None, LoadBalancerSKU = ''basic''\<rparr>"
              "\<lparr>DatacenterName = ''dc'', Azure = Some \<lparr>ResourceGroup = ''rg-b'', VNetResourceGroup = [],
                  VNetName = ''vnet'', SubnetName = [], RouteTableName = [], SecurityGroup = [],
                  AvailabilitySet = [], AssignAvailabilitySet = None, LoadBalancerSKU = ''basic''\<rparr>\<rparr>"
              "\<lparr>ResourceGroup = ''rg-b'', VNetResourceGroup = [],
                  VNetName = ''vnet'', SubnetName = [], RouteTableName = [], SecurityGroup = [],
                  AvailabilitySet = [], AssignAvailabilitySet = None, LoadBalancerSKU = ''basic''\<rparr>"]
        ValidateCloudSpecUpdate_resource_group
          [of "\<lparr>DatacenterName = ''dc'', Azure = Some \<lparr>ResourceGroup = [], VNetResourceGroup = [],
                  VNetName = ''vnet'', SubnetName = [], RouteTableName = [], SecurityGroup = [],
                  AvailabilitySet = [], AssignAvailabilitySet = None, LoadBalancerSKU = ''basic''\<rparr>\<rparr>"
              "\<lparr>ResourceGroup = [], VNetResourceGroup = [],
                  VNetName = ''vnet'', SubnetName = [], RouteTableName = [], SecurityGroup = [],
                  AvailabilitySet = [], AssignAvailabilitySet = None, LoadBalancerSKU = ''basic''\<rparr>"
              "\<lparr>DatacenterName = ''dc'', Azure = Some \<lparr>ResourceGroup = ''rg-b'', VNetResourceGroup = [],
                  VNetName = ''vnet'', SubnetName = [], RouteTableName = [], SecurityGroup = [],
                  AvailabilitySet = [], AssignAvailabilitySet = None, LoadBalancerSKU = ''basic''\<rparr>\<rparr>"
              "\<lparr>ResourceGroup = ''rg-b'', VNetResourceGroup = [],
                  VNetName = ''vnet'', SubnetName = [], RouteTableName = [], SecurityGroup = [],
                  AvailabilitySet = [], AssignAvailabilitySet = None, LoadBalancerSKU = ''basic''\<rparr>"]
  by simp

section \<open>Verified properties: cluster deletion pipeline\<close>

lemmas example_defs = example_cluster_def env_all_done_def env_nodes_pending_def
  env_lbs_remaining_def env_volume_deleted_def

lemmas finalizer_defs = KubermaticConstraintCleanupFinalizer_def InClusterLBCleanupFinalizer_def
  InClusterPVCleanupFinalizer_def EtcdBackupConfigCleanupFinalizer_def NodeDeletionFinalizer_def
  ClusterRoleBindingsCleanupFinalizer_def CredentialsSecretsCleanupFinalizer_def

lemmas pipeline_defs = CleanupCluster_def inClusterStages_def laterStages_def credentialsGate_def
  cleanupConstraints_def cleanupEtcdBackupConfigs_def cleanupNodes_def cleanUpCredentialsSecrets_def
  cleanupClusterRoleBindings_def cleanupInClusterResources_def guardedStage_def called_def
  cleanupLBs_def cleanupVolumes_def checkIfAllLoadbalancersAreGone_def
  tryRemoveFinalizer_def TryRemoveFinalizer_def RemoveFinalizer_def
  HasFinalizer_def HasAnyFinalizer_def HasOnlyFinalizer_def

lemma finalizer_names_distinct:
  "distinct [KubermaticConstraintCleanupFinalizer, InClusterLBCleanupFinalizer,
     InClusterPVCleanupFinalizer, EtcdBackupConfigCleanupFinalizer, NodeDeletionFinalizer,
     ClusterRoleBindingsCleanupFinalizer, CredentialsSecretsCleanupFinalizer]"
  by (simp add: KubermaticConstraintCleanupFinalizer_def InClusterLBCleanupFinalizer_def
     InClusterPVCleanupFinalizer_def EtcdBackupConfigCleanupFinalizer_def NodeDeletionFinalizer_def
     ClusterRoleBindingsCleanupFinalizer_def CredentialsSecretsCleanupFinalizer_def)

lemma tryRemoveFinalizer_effect:
  assumes "tryRemoveFinalizer api names st = (st', e)"
  shows "trace st' = trace st"
    and "e = api"
    and "api \<noteq> None \<Longrightarrow> st' = st"
    and "api = None \<Longrightarrow> fins st' = filter (\<lambda>f. f \<notin> set names) (fins st)"
  using assms
  by (auto simp: tryRemoveFinalizer_def TryRemoveFinalizer_def RemoveFinalizer_def split: option.splits)

lemma tryRemoveFinalizer_keeps:
  assumes "tryRemoveFinalizer api names st = (st', e)" and "g \<notin> set names"
  shows "g \<in> set (fins st') \<longleftrightarrow> g \<in> set (fins st)"
  using assms
  by (auto simp: tryRemoveFinalizer_def TryRemoveFinalizer_def RemoveFinalizer_def split: option.splits)

lemma tryRemoveFinalizer_subset:
  assumes "tryRemoveFinalizer api names st = (st', e)"
  shows "set (fins st') \<subseteq> set (fins st)"
  using assms
  by (auto simp: tryRemoveFinalizer_def TryRemoveFinalizer_def RemoveFinalizer_def split: option.splits)

lemma guardedStage_effect:
  assumes "guardedStage f out st = (st', e)"
  shows "trace st' = trace st"
    and "g \<noteq> f \<Longrightarrow> g \<in> set (fins st') \<longleftrightarrow> g \<in> set (fins st)"
    and "set (fins st') \<subseteq> set (fins st)"
  using assms tryRemoveFinalizer_effect(1)[of _ "[f]" st st' e]
    tryRemoveFinalizer_keeps[of _ "[f]" st st' e g] tryRemoveFinalizer_subset[of _ "[f]" st st' e]
  by (auto simp: guardedStage_def split: if_splits stage_outcome.splits)

lemma called_effect:
  "fins (called s st) = fins st"
  "cluster (called s st) = cluster st"
  "trace (called s st) = trace st @ [Called s (fins st)]"
  by (simp_all add: called_def)

lemma cleanupInClusterResources_effect:
  assumes "cleanupInClusterResources env st = (st', e)"
  shows "Called s fs \<in> set (trace st') \<longleftrightarrow> Called s fs \<in> set (trace st)"
    and "g \<notin> {InClusterLBCleanupFinalizer, InClusterPVCleanupFinalizer}
           \<Longrightarrow> g \<in> set (fins st') \<longleftrightarrow> g \<in> set (fins st)"
    and "set (fins st') \<subseteq> set (fins st)"
  using assms
  by (auto simp: cleanupInClusterResources_def Let_def cleanupLBs_def cleanupVolumes_def
        checkIfAllLoadbalancersAreGone_def tryRemoveFinalizer_def TryRemoveFinalizer_def
        RemoveFinalizer_def
      split: if_splits sum.splits option.splits prod.splits)

lemma cred_neq:
  "CredentialsSecretsCleanupFinalizer \<noteq> KubermaticConstraintCleanupFinalizer"
  "CredentialsSecretsCleanupFinalizer \<noteq> InClusterLBCleanupFinalizer"
  "CredentialsSecretsCleanupFinalizer \<noteq> InClusterPVCleanupFinalizer"
  "CredentialsSecretsCleanupFinalizer \<noteq> EtcdBackupConfigCleanupFinalizer"
  "CredentialsSecretsCleanupFinalizer \<noteq> NodeDeletionFinalizer"
  "CredentialsSecretsCleanupFinalizer \<noteq> ClusterRoleBindingsCleanupFinalizer"
  using finalizer_names_distinct by auto

lemma quietD:
  assumes "quiet F" "F st = (st', e)"
  shows "Called CredentialsSecrets fs \<in> set (trace st') \<longleftrightarrow> Called CredentialsSecrets fs \<in> set (trace st)"
    and "CredentialsSecretsCleanupFinalizer \<in> set (fins st') \<longleftrightarrow> CredentialsSecretsCleanupFinalizer \<in> set (fins st)"
    and "set (fins st') \<subseteq> set (fins st)"
  using assms unfolding quiet_def by blast+

lemma quiet_guardedStage:
  "f \<noteq> CredentialsSecretsCleanupFinalizer \<Longrightarrow> quiet (guardedStage f out)"
  unfolding quiet_def using guardedStage_effect by metis

lemma quiet_stages:
  "quiet (cleanupConstraints env)" "quiet (cleanupEtcdBackupConfigs env)" "quiet (cleanupNodes env)"
  using quiet_guardedStage cred_neq
  unfolding cleanupConstraints_def[abs_def] cleanupEtcdBackupConfigs_def[abs_def] cleanupNodes_def[abs_def]
  by metis+

lemma quiet_cleanupClusterRoleBindings: "quiet (cleanupClusterRoleBindings env)"
  unfolding quiet_def cleanupClusterRoleBindings_def
  using tryRemoveFinalizer_effect(1) tryRemoveFinalizer_subset
    tryRemoveFinalizer_keeps[where g = CredentialsSecretsCleanupFinalizer and names = "[ClusterRoleBindingsCleanupFinalizer]"]
    cred_neq(6)
  by (metis empty_iff empty_set set_ConsD)

lemma quiet_cleanupInClusterResources: "quiet (cleanupInClusterResources env)"
  unfolding quiet_def
  using cleanupInClusterResources_effect(1)[where s = CredentialsSecrets]
    cleanupInClusterResources_effect(2)[where g = CredentialsSecretsCleanupFinalizer]
    cleanupInClusterResources_effect(3) cred_neq
  by (metis insert_iff empty_iff)

lemma quiet_after_called:
  assumes "quiet F" "s \<noteq> CredentialsSecrets"
  shows "quiet (\<lambda>st. F (called s st))"
  unfolding quiet_def
proof (intro allI impI)
  fix st st' e assume "F (called s st) = (st', e)"
  from quietD[OF assms(1) this] show
   "(\<forall>fs. Called CredentialsSecrets fs \<in> set (trace st') \<longleftrightarrow> Called CredentialsSecrets fs \<in> set (trace st))
    \<and> (CredentialsSecretsCleanupFinalizer \<in> set (fins st') \<longleftrightarrow> CredentialsSecretsCleanupFinalizer \<in> set (fins st))
    \<and> set (fins st') \<subseteq> set (fins st)"
    using assms(2) by (simp add: called_effect)
qed

lemma quiet_inClusterStages: "quiet (inClusterStages env)"
  unfolding quiet_def
proof (intro allI impI)
  fix st st' e assume run: "inClusterStages env st = (st', e)"
  obtain st1 e1 where s1: "cleanupConstraints env (called Constraints st) = (st1, e1)"
    by (cases "cleanupConstraints env (called Constraints st)")
  note q1 = quietD[OF quiet_after_called[OF quiet_stages(1), of Constraints env] s1, simplified]
  show "(\<forall>fs. Called CredentialsSecrets fs \<in> set (trace st') \<longleftrightarrow> Called CredentialsSecrets fs \<in> set (trace st))
    \<and> (CredentialsSecretsCleanupFinalizer \<in> set (fins st') \<longleftrightarrow> CredentialsSecretsCleanupFinalizer \<in> set (fins st))
    \<and> set (fins st') \<subseteq> set (fins st)"
  proof (cases e1)
    case (Some err)
    with run s1 have "st' = st1" by (simp add: inClusterStages_def)
    with q1 show ?thesis by simp
  next
    case None
    with run s1 have s2: "cleanupInClusterResources env (called InClusterResources st1) = (st', e)"
      by (simp add: inClusterStages_def)
    note q2 = quietD[OF quiet_after_called[OF quiet_cleanupInClusterResources, of InClusterResources env] s2, simplified]
    from q1 q2 show ?thesis by blast
  qed
qed


lemma cleanUpCredentialsSecrets_effect:
  assumes "cleanUpCredentialsSecrets env st = (st', e)"
  shows "trace st' = trace st" and "set (fins st') \<subseteq> set (fins st)"
proof -
  show "trace st' = trace st"
    using assms tryRemoveFinalizer_effect(1)[of _ "[CredentialsSecretsCleanupFinalizer]" st st' e]
    by (cases "cleanUpCredentialsSecrets_result env") (simp_all add: cleanUpCredentialsSecrets_def)
  show "set (fins st') \<subseteq> set (fins st)"
    using assms tryRemoveFinalizer_subset[of _ "[CredentialsSecretsCleanupFinalizer]" st st' e]
    by (cases "cleanUpCredentialsSecrets_result env") (auto simp add: cleanUpCredentialsSecrets_def)
qed

lemma credentialsGate_effect:
  assumes run: "credentialsGate env st = (st', e)"
  shows "Called CredentialsSecrets fs \<in> set (trace st')
           \<Longrightarrow> Called CredentialsSecrets fs \<in> set (trace st) \<or> set fs = {CredentialsSecretsCleanupFinalizer}"
    and "\<exists>f \<in> set (fins st'). f \<noteq> CredentialsSecretsCleanupFinalizer \<Longrightarrow> st' = st"
    and "set (fins st') \<subseteq> set (fins st)"
proof -
  show "Called CredentialsSecrets fs \<in> set (trace st')
           \<Longrightarrow> Called CredentialsSecrets fs \<in> set (trace st) \<or> set fs = {CredentialsSecretsCleanupFinalizer}"
  proof (cases "HasOnlyFinalizer (Meta (cluster st)) [CredentialsSecretsCleanupFinalizer]")
    case False
    assume "Called CredentialsSecrets fs \<in> set (trace st')"
    with run False show ?thesis by (simp add: credentialsGate_def)
  next
    case True
    assume m: "Called CredentialsSecrets fs \<in> set (trace st')"
    from True have only: "set (fins st) = {CredentialsSecretsCleanupFinalizer}"
      by (simp add: HasOnlyFinalizer_def)
    obtain st1 e1 where c: "cleanUpCredentialsSecrets env (called CredentialsSecrets st) = (st1, e1)"
      by (cases "cleanUpCredentialsSecrets env (called CredentialsSecrets st)")
    from run True c have "st' = st1" by (cases e1) (simp_all add: credentialsGate_def)
    with cleanUpCredentialsSecrets_effect(1)[OF c]
    have "trace st' = trace st @ [Called CredentialsSecrets (fins st)]" by (simp add: called_effect)
    with m only show ?thesis by auto
  qed
  show "set (fins st') \<subseteq> set (fins st)"
  proof (cases "HasOnlyFinalizer (Meta (cluster st)) [CredentialsSecretsCleanupFinalizer]")
    case False
    with run show ?thesis by (simp add: credentialsGate_def)
  next
    case True
    obtain st1 e1 where c: "cleanUpCredentialsSecrets env (called CredentialsSecrets st) = (st1, e1)"
      by (cases "cleanUpCredentialsSecrets env (called CredentialsSecrets st)")
    from run True c have "st' = st1" by (cases e1) (simp_all add: credentialsGate_def)
    with cleanUpCredentialsSecrets_effect(2)[OF c] show ?thesis by (simp add: called_effect)
  qed
  then show "\<exists>f \<in> set (fins st'). f \<noteq> CredentialsSecretsCleanupFinalizer \<Longrightarrow> st' = st"
    using run by (auto simp: credentialsGate_def HasOnlyFinalizer_def split: if_splits)
qed

lemma laterStages_cases:
  assumes run: "laterStages env st = (st', e)"
    and s1: "cleanupEtcdBackupConfigs env (called EtcdBackupConfigs st) = (st1, e1)"
    and s2: "cleanupNodes env (called Nodes st1) = (st2, e2)"
    and s3: "cleanupClusterRoleBindings env (called ClusterRoleBindings st2) = (st3, e3)"
    and s4: "credentialsGate env st3 = (st4, e4)"
  shows "st' = st1 \<or> st' = st2 \<or> st' = st3 \<or> st' = st4"
proof (cases e1)
  case (Some a)
  with run s1 show ?thesis by (simp add: laterStages_def)
next
  case n1: None
  show ?thesis
  proof (cases e2)
    case (Some a)
    with run s1 s2 n1 show ?thesis by (simp add: laterStages_def)
  next
    case n2: None
    show ?thesis
    proof (cases e3)
      case (Some a)
      with run s1 s2 s3 n1 n2 show ?thesis by (simp add: laterStages_def)
    next
      case n3: None
      with run s1 s2 s3 s4 n1 n2 show ?thesis by (simp add: laterStages_def split: if_splits)
    qed
  qed
qed


lemma laterStages_effect:
  assumes run: "laterStages env st = (st', e)"
  shows "Called CredentialsSecrets fs \<in> set (trace st')
           \<Longrightarrow> Called CredentialsSecrets fs \<in> set (trace st) \<or> set fs = {CredentialsSecretsCleanupFinalizer}"
    and "\<exists>f \<in> set (fins st'). f \<noteq> CredentialsSecretsCleanupFinalizer \<Longrightarrow>
           (Called CredentialsSecrets fs \<in> set (trace st') \<longleftrightarrow> Called CredentialsSecrets fs \<in> set (trace st))
         \<and> (CredentialsSecretsCleanupFinalizer \<in> set (fins st') \<longleftrightarrow> CredentialsSecretsCleanupFinalizer \<in> set (fins st))"
    and "set (fins st') \<subseteq> set (fins st)"
proof -
  obtain st1 e1 where s1: "cleanupEtcdBackupConfigs env (called EtcdBackupConfigs st) = (st1, e1)"
    by (cases "cleanupEtcdBackupConfigs env (called EtcdBackupConfigs st)")
  obtain st2 e2 where s2: "cleanupNodes env (called Nodes st1) = (st2, e2)"
    by (cases "cleanupNodes env (called Nodes st1)")
  obtain st3 e3 where s3: "cleanupClusterRoleBindings env (called ClusterRoleBindings st2) = (st3, e3)"
    by (cases "cleanupClusterRoleBindings env (called ClusterRoleBindings st2)")
  obtain st4 e4 where s4: "credentialsGate env st3 = (st4, e4)"
    by (cases "credentialsGate env st3")
  note q1 = quietD[OF quiet_after_called[OF quiet_stages(2), of EtcdBackupConfigs env] s1, simplified]
  note q2 = quietD[OF quiet_after_called[OF quiet_stages(3), of Nodes env] s2, simplified]
  note q3 = quietD[OF quiet_after_called[OF quiet_cleanupClusterRoleBindings, of ClusterRoleBindings env] s3, simplified]
  note g = credentialsGate_effect[OF s4]
  have sub3: "set (fins st3) \<subseteq> set (fins st)" using q1(3) q2(3) q3(3) by blast
  have tr3: "Called CredentialsSecrets fs \<in> set (trace st3) \<longleftrightarrow> Called CredentialsSecrets fs \<in> set (trace st)"
    using q1(1) q2(1) q3(1) by simp
  have cr3: "CredentialsSecretsCleanupFinalizer \<in> set (fins st3) \<longleftrightarrow> CredentialsSecretsCleanupFinalizer \<in> set (fins st)"
    using q1(2) q2(2) q3(2) by simp
  from laterStages_cases[OF run s1 s2 s3 s4] consider
      "st' = st1" | "st' = st2" | "st' = st3" | "st' = st4"
    by blast
  then have all:
    "(Called CredentialsSecrets fs \<in> set (trace st')
           \<longrightarrow> Called CredentialsSecrets fs \<in> set (trace st) \<or> set fs = {CredentialsSecretsCleanupFinalizer})
    \<and> ((\<exists>f \<in> set (fins st'). f \<noteq> CredentialsSecretsCleanupFinalizer) \<longrightarrow>
           (Called CredentialsSecrets fs \<in> set (trace st') \<longleftrightarrow> Called CredentialsSecrets fs \<in> set (trace st))
         \<and> (CredentialsSecretsCleanupFinalizer \<in> set (fins st') \<longleftrightarrow> CredentialsSecretsCleanupFinalizer \<in> set (fins st)))
    \<and> set (fins st') \<subseteq> set (fins st)"
  proof cases
    case 1 with q1 show ?thesis by simp
  next
    case 2
    have "set (fins st2) \<subseteq> set (fins st)" using q1(3) q2(3) by blast
    with 2 q1(1,2) q2(1,2) show ?thesis by simp
  next
    case 3 with sub3 tr3 cr3 show ?thesis by simp
  next
    case 4
    have sub: "set (fins st4) \<subseteq> set (fins st)" using sub3 g(3) by blast
    have a: "Called CredentialsSecrets fs \<in> set (trace st4)
           \<longrightarrow> Called CredentialsSecrets fs \<in> set (trace st) \<or> set fs = {CredentialsSecretsCleanupFinalizer}"
      using g(1)[of fs] tr3 by blast
    have b: "(\<exists>f \<in> set (fins st4). f \<noteq> CredentialsSecretsCleanupFinalizer) \<longrightarrow>
           (Called CredentialsSecrets fs \<in> set (trace st4) \<longleftrightarrow> Called CredentialsSecrets fs \<in> set (trace st))
         \<and> (CredentialsSecretsCleanupFinalizer \<in> set (fins st4) \<longleftrightarrow> CredentialsSecretsCleanupFinalizer \<in> set (fins st))"
    proof
      assume "\<exists>f \<in> set (fins st4). f \<noteq> CredentialsSecretsCleanupFinalizer"
      then have "st4 = st3" by (rule g(2))
      with tr3 cr3 show "(Called CredentialsSecrets fs \<in> set (trace st4) \<longleftrightarrow> Called CredentialsSecrets fs \<in> set (trace st))
         \<and> (CredentialsSecretsCleanupFinalizer \<in> set (fins st4) \<longleftrightarrow> CredentialsSecretsCleanupFinalizer \<in> set (fins st))"
        by simp
    qed
    from 4 sub a b show ?thesis by simp
  qed
  from all show "Called CredentialsSecrets fs \<in> set (trace st')
           \<Longrightarrow> Called CredentialsSecrets fs \<in> set (trace st) \<or> set fs = {CredentialsSecretsCleanupFinalizer}"
    by blast
  from all show "\<exists>f \<in> set (fins st'). f \<noteq> CredentialsSecretsCleanupFinalizer \<Longrightarrow>
           (Called CredentialsSecrets fs \<in> set (trace st') \<longleftrightarrow> Called CredentialsSecrets fs \<in> set (trace st))
         \<and> (CredentialsSecretsCleanupFinalizer \<in> set (fins st') \<longleftrightarrow> CredentialsSecretsCleanupFinalizer \<in> set (fins st))"
    by blast
  from all show "set (fins st') \<subseteq> set (fins st)" by blast
qed


text \<open>
  C1. In every pass of \<open>CleanupCluster\<close>, the credentials-secrets cleanup is called only
  while the credentials-secrets-cleanup finalizer is the only finalizer on the Cluster; and
  in a pass that ends with any other finalizer still on the Cluster, the credentials cleanup
  was not called and the credentials finalizer was not removed.
\<close>

theorem credentials_cleanup_only_as_sole_finalizer:
  assumes run: "CleanupCluster env c = (st', e)"
  shows "(\<forall>fs. Called CredentialsSecrets fs \<in> set (trace st')
            \<longrightarrow> set fs = {CredentialsSecretsCleanupFinalizer})
       \<and> ((\<exists>f \<in> set (fins st'). f \<noteq> CredentialsSecretsCleanupFinalizer) \<longrightarrow>
            (\<forall>fs. Called CredentialsSecrets fs \<notin> set (trace st'))
          \<and> (CredentialsSecretsCleanupFinalizer \<in> set (Finalizers (Meta c))
               \<longrightarrow> CredentialsSecretsCleanupFinalizer \<in> set (fins st')))"
proof -
  obtain st2 e2 where s2: "inClusterStages env \<lparr>cluster = c, trace = []\<rparr> = (st2, e2)"
    by (cases "inClusterStages env \<lparr>cluster = c, trace = []\<rparr>")
  have tr2: "\<And>fs. Called CredentialsSecrets fs \<notin> set (trace st2)"
    using quietD(1)[OF quiet_inClusterStages s2] by simp
  have cr2: "CredentialsSecretsCleanupFinalizer \<in> set (fins st2)
               \<longleftrightarrow> CredentialsSecretsCleanupFinalizer \<in> set (Finalizers (Meta c))"
    using quietD(2)[OF quiet_inClusterStages s2] by simp
  obtain st3 e3 where s3: "laterStages env st2 = (st3, e3)"
    by (cases "laterStages env st2")
  have a: "\<And>fs. Called CredentialsSecrets fs \<in> set (trace st3)
            \<Longrightarrow> set fs = {CredentialsSecretsCleanupFinalizer}"
    using laterStages_effect(1)[OF s3] tr2 by blast
  have b: "\<exists>f \<in> set (fins st3). f \<noteq> CredentialsSecretsCleanupFinalizer \<Longrightarrow>
            Called CredentialsSecrets fs \<notin> set (trace st3)
          \<and> (CredentialsSecretsCleanupFinalizer \<in> set (Finalizers (Meta c))
               \<longrightarrow> CredentialsSecretsCleanupFinalizer \<in> set (fins st3))" for fs
    using laterStages_effect(2)[OF s3, of fs] tr2[of fs] cr2 by simp
  from run s2 s3 have "st' = st2 \<or> st' = st3"
    by (cases e2) (simp_all add: CleanupCluster_def split: if_splits)
  then show ?thesis
  proof
    assume "st' = st2"
    with tr2 cr2 show ?thesis by simp
  next
    assume "st' = st3"
    with a b show ?thesis by blast
  qed
qed


lemma run_sole_finalizer:
  "CleanupCluster env_all_done (example_cluster [CredentialsSecretsCleanupFinalizer]) =
     (\<lparr>cluster = example_cluster [],
       trace = [Called Constraints [CredentialsSecretsCleanupFinalizer],
                Called InClusterResources [CredentialsSecretsCleanupFinalizer],
                Called EtcdBackupConfigs [CredentialsSecretsCleanupFinalizer],
                Called Nodes [CredentialsSecretsCleanupFinalizer],
                Called ClusterRoleBindings [CredentialsSecretsCleanupFinalizer],
                Called CredentialsSecrets [CredentialsSecretsCleanupFinalizer]]\<rparr>, None)"
  by (simp add: pipeline_defs example_defs finalizer_defs)

lemma run_nodes_pending:
  "CleanupCluster env_nodes_pending
     (example_cluster [NodeDeletionFinalizer, CredentialsSecretsCleanupFinalizer]) =
     (\<lparr>cluster = example_cluster [NodeDeletionFinalizer, CredentialsSecretsCleanupFinalizer],
       trace = [Called Constraints [NodeDeletionFinalizer, CredentialsSecretsCleanupFinalizer],
                Called InClusterResources [NodeDeletionFinalizer, CredentialsSecretsCleanupFinalizer],
                Called EtcdBackupConfigs [NodeDeletionFinalizer, CredentialsSecretsCleanupFinalizer],
                Called Nodes [NodeDeletionFinalizer, CredentialsSecretsCleanupFinalizer],
                Called ClusterRoleBindings [NodeDeletionFinalizer, CredentialsSecretsCleanupFinalizer]]\<rparr>,
      None)"
  by (simp add: pipeline_defs example_defs finalizer_defs)

theorem credentials_cleanup_only_as_sole_finalizer_witness:
  "Called CredentialsSecrets [CredentialsSecretsCleanupFinalizer]
     \<in> set (trace (fst (CleanupCluster env_all_done
                (example_cluster [CredentialsSecretsCleanupFinalizer]))))
   \<and> set [CredentialsSecretsCleanupFinalizer] = {CredentialsSecretsCleanupFinalizer}
   \<and> NodeDeletionFinalizer
     \<in> set (fins (fst (CleanupCluster env_nodes_pending
                (example_cluster [NodeDeletionFinalizer, CredentialsSecretsCleanupFinalizer]))))
   \<and> NodeDeletionFinalizer \<noteq> CredentialsSecretsCleanupFinalizer
   \<and> Called CredentialsSecrets [NodeDeletionFinalizer, CredentialsSecretsCleanupFinalizer]
     \<notin> set (trace (fst (CleanupCluster env_nodes_pending
                (example_cluster [NodeDeletionFinalizer, CredentialsSecretsCleanupFinalizer]))))
   \<and> CredentialsSecretsCleanupFinalizer
     \<in> set (fins (fst (CleanupCluster env_nodes_pending
                (example_cluster [NodeDeletionFinalizer, CredentialsSecretsCleanupFinalizer]))))"
  using credentials_cleanup_only_as_sole_finalizer [OF run_sole_finalizer]
        credentials_cleanup_only_as_sole_finalizer [OF run_nodes_pending]
        cred_neq(5)
  unfolding run_sole_finalizer run_nodes_pending
  by (simp add: example_cluster_def)

lemma inClusterStages_calls:
  assumes run: "inClusterStages env st = (st', e)" and m: "Called s fs \<in> set (trace st')"
  shows "Called s fs \<in> set (trace st) \<or> s = Constraints \<or> s = InClusterResources"
proof -
  obtain st1 e1 where s1: "cleanupConstraints env (called Constraints st) = (st1, e1)"
    by (cases "cleanupConstraints env (called Constraints st)")
  then have t1: "trace st1 = trace st @ [Called Constraints (fins st)]"
    using guardedStage_effect(1) by (simp add: cleanupConstraints_def called_effect)
  show ?thesis
  proof (cases e1)
    case (Some err)
    with run s1 have "st' = st1" by (simp add: inClusterStages_def)
    with t1 m show ?thesis by auto
  next
    case None
    with run s1 have s2: "cleanupInClusterResources env (called InClusterResources st1) = (st', e)"
      by (simp add: inClusterStages_def)
    from cleanupInClusterResources_effect(1)[OF s2, of s fs] m
    have "Called s fs \<in> set (trace (called InClusterResources st1))" by simp
    with t1 show ?thesis by (auto simp: called_effect)
  qed
qed

text \<open>
  C2. If, after the in-cluster resource cleanup stage, the in-cluster-LB-cleanup or the
  in-cluster-PV-cleanup finalizer is still on the Cluster, \<open>CleanupCluster\<close> returns what
  that stage left, and the pass calls no later stage: no etcd-backup-config cleanup, no node
  deletion, no cluster-role-binding cleanup, no credentials-secrets cleanup.
\<close>

theorem halts_while_in_cluster_finalizers_remain:
  assumes stage2: "inClusterStages env \<lparr>cluster = c, trace = []\<rparr> = (st2, e2)"
    and remain: "HasAnyFinalizer (Meta (cluster st2))
                   [InClusterLBCleanupFinalizer, InClusterPVCleanupFinalizer]"
  shows "CleanupCluster env c = (st2, e2)
       \<and> (\<forall>fs. Called EtcdBackupConfigs fs \<notin> set (trace (fst (CleanupCluster env c)))
              \<and> Called Nodes fs \<notin> set (trace (fst (CleanupCluster env c)))
              \<and> Called ClusterRoleBindings fs \<notin> set (trace (fst (CleanupCluster env c)))
              \<and> Called CredentialsSecrets fs \<notin> set (trace (fst (CleanupCluster env c))))"
proof -
  have ret: "CleanupCluster env c = (st2, e2)"
    using stage2 remain by (cases e2) (simp_all add: CleanupCluster_def)
  have "\<And>s fs. Called s fs \<in> set (trace st2) \<Longrightarrow> s = Constraints \<or> s = InClusterResources"
    using inClusterStages_calls[OF stage2] by simp
  then have "\<And>fs. Called EtcdBackupConfigs fs \<notin> set (trace st2)
              \<and> Called Nodes fs \<notin> set (trace st2)
              \<and> Called ClusterRoleBindings fs \<notin> set (trace st2)
              \<and> Called CredentialsSecrets fs \<notin> set (trace st2)"
    by blast
  with ret show ?thesis by simp
qed


lemma run_lbs_remaining:
  "inClusterStages env_lbs_remaining
     \<lparr>cluster = example_cluster [InClusterLBCleanupFinalizer, NodeDeletionFinalizer], trace = []\<rparr>
   = (\<lparr>cluster = example_cluster [InClusterLBCleanupFinalizer, NodeDeletionFinalizer],
       trace = [Called Constraints [InClusterLBCleanupFinalizer, NodeDeletionFinalizer],
                Called InClusterResources [InClusterLBCleanupFinalizer, NodeDeletionFinalizer],
                LBsCleanup, LBsGoneCheck]\<rparr>, None)"
  by (simp add: pipeline_defs example_defs finalizer_defs)

theorem halts_while_in_cluster_finalizers_remain_witness:
  "HasAnyFinalizer (Meta (example_cluster [InClusterLBCleanupFinalizer, NodeDeletionFinalizer]))
     [InClusterLBCleanupFinalizer, InClusterPVCleanupFinalizer]
   \<and> CleanupCluster env_lbs_remaining
         (example_cluster [InClusterLBCleanupFinalizer, NodeDeletionFinalizer])
       = (\<lparr>cluster = example_cluster [InClusterLBCleanupFinalizer, NodeDeletionFinalizer],
           trace = [Called Constraints [InClusterLBCleanupFinalizer, NodeDeletionFinalizer],
                    Called InClusterResources [InClusterLBCleanupFinalizer, NodeDeletionFinalizer],
                    LBsCleanup, LBsGoneCheck]\<rparr>, None)
   \<and> Called Nodes [InClusterLBCleanupFinalizer, NodeDeletionFinalizer]
       \<notin> set (trace (fst (CleanupCluster env_lbs_remaining
                  (example_cluster [InClusterLBCleanupFinalizer, NodeDeletionFinalizer]))))"
proof -
  have remain: "HasAnyFinalizer
      (Meta (example_cluster [InClusterLBCleanupFinalizer, NodeDeletionFinalizer]))
      [InClusterLBCleanupFinalizer, InClusterPVCleanupFinalizer]"
    by (simp add: HasAnyFinalizer_def example_cluster_def)
  then have "HasAnyFinalizer (Meta (cluster
      \<lparr>cluster = example_cluster [InClusterLBCleanupFinalizer, NodeDeletionFinalizer],
       trace = [Called Constraints [InClusterLBCleanupFinalizer, NodeDeletionFinalizer],
                Called InClusterResources [InClusterLBCleanupFinalizer, NodeDeletionFinalizer],
                LBsCleanup, LBsGoneCheck]\<rparr>))
      [InClusterLBCleanupFinalizer, InClusterPVCleanupFinalizer]"
    by simp
  from halts_while_in_cluster_finalizers_remain [OF run_lbs_remaining this] remain
  show ?thesis by simp
qed

lemma cleanupInClusterResources_fins:
  "fins (fst (cleanupInClusterResources env st)) =
     (if removal_due env st
      then filter (\<lambda>f. f \<noteq> InClusterLBCleanupFinalizer \<and> f \<noteq> InClusterPVCleanupFinalizer) (fins st)
      else fins st)"
  by (simp add: removal_due_def cleanupInClusterResources_def Let_def cleanupLBs_def cleanupVolumes_def
        checkIfAllLoadbalancersAreGone_def tryRemoveFinalizer_def TryRemoveFinalizer_def
        RemoveFinalizer_def HasFinalizer_def
      split: sum.splits option.splits)

lemma cleanupInClusterResources_err:
  "removal_due env st \<Longrightarrow> snd (cleanupInClusterResources env st) = None"
  by (simp add: removal_due_def cleanupInClusterResources_def Let_def cleanupLBs_def cleanupVolumes_def
        checkIfAllLoadbalancersAreGone_def tryRemoveFinalizer_def TryRemoveFinalizer_def
        RemoveFinalizer_def HasFinalizer_def
      split: sum.splits option.splits)

text \<open>
  C8 (as amended). In the in-cluster resource cleanup stage the two finalizers are not removed
  independently: one \<open>TryRemoveFinalizer\<close> call removes both. They are removed only in a pass
  in which neither the load-balancer cleanup nor the volume cleanup deleted anything, the
  check that all load balancers are gone succeeded, and the write went through; in a pass in
  which a load balancer or a volume was deleted, neither finalizer is removed. In such a
  pass with no deletion, a positive load-balancer check and a successful write, both are
  gone afterwards.
\<close>

theorem in_cluster_finalizers_removed_together:
  assumes run: "cleanupInClusterResources env st = (st', e)"
  shows "(fins st' \<noteq> fins st \<longrightarrow>
            (InClusterLBCleanupFinalizer \<in> set (fins st) \<longrightarrow> cleanupLBs_result env = Inr False)
          \<and> (InClusterPVCleanupFinalizer \<in> set (fins st) \<longrightarrow> cleanupVolumes_result env = Inr False)
          \<and> checkIfAllLoadbalancersAreGone_result env = Inr True
          \<and> removeInClusterFinalizers_result env = None
          \<and> e = None)
       \<and> ((InClusterLBCleanupFinalizer \<in> set (fins st) \<and> cleanupLBs_result env = Inr True)
            \<or> (InClusterPVCleanupFinalizer \<in> set (fins st) \<and> cleanupVolumes_result env = Inr True)
           \<longrightarrow> fins st' = fins st)
       \<and> (fins st' = fins st
            \<or> fins st' = filter (\<lambda>f. f \<noteq> InClusterLBCleanupFinalizer \<and> f \<noteq> InClusterPVCleanupFinalizer) (fins st))
       \<and> ((InClusterLBCleanupFinalizer \<in> set (fins st) \<or> InClusterPVCleanupFinalizer \<in> set (fins st))
            \<and> (InClusterLBCleanupFinalizer \<in> set (fins st) \<longrightarrow> cleanupLBs_result env = Inr False)
            \<and> (InClusterPVCleanupFinalizer \<in> set (fins st) \<longrightarrow> cleanupVolumes_result env = Inr False)
            \<and> checkIfAllLoadbalancersAreGone_result env = Inr True
            \<and> removeInClusterFinalizers_result env = None
           \<longrightarrow> InClusterLBCleanupFinalizer \<notin> set (fins st') \<and> InClusterPVCleanupFinalizer \<notin> set (fins st'))"
proof (cases "removal_due env st")
  case True
  with cleanupInClusterResources_fins[of env st] run
  have f: "fins st' = filter (\<lambda>f. f \<noteq> InClusterLBCleanupFinalizer \<and> f \<noteq> InClusterPVCleanupFinalizer) (fins st)"
    by simp
  from cleanupInClusterResources_err[OF True] run have e: "e = None" by simp
  from True have r:
    "InClusterLBCleanupFinalizer \<in> set (fins st) \<longrightarrow> cleanupLBs_result env = Inr False"
    "InClusterPVCleanupFinalizer \<in> set (fins st) \<longrightarrow> cleanupVolumes_result env = Inr False"
    "checkIfAllLoadbalancersAreGone_result env = Inr True"
    "removeInClusterFinalizers_result env = None"
    by (simp_all add: removal_due_def)
  have no: "InClusterLBCleanupFinalizer \<notin> set (fins st') \<and> InClusterPVCleanupFinalizer \<notin> set (fins st')"
    unfolding f by simp
  from r have contra: "\<not> ((InClusterLBCleanupFinalizer \<in> set (fins st) \<and> cleanupLBs_result env = Inr True)
            \<or> (InClusterPVCleanupFinalizer \<in> set (fins st) \<and> cleanupVolumes_result env = Inr True))"
    by auto
  from f e r no contra show ?thesis by blast
next
  case False
  with cleanupInClusterResources_fins[of env st] run
  have f: "fins st' = fins st" by simp
  from False have "\<not> ((InClusterLBCleanupFinalizer \<in> set (fins st) \<or> InClusterPVCleanupFinalizer \<in> set (fins st))
            \<and> (InClusterLBCleanupFinalizer \<in> set (fins st) \<longrightarrow> cleanupLBs_result env = Inr False)
            \<and> (InClusterPVCleanupFinalizer \<in> set (fins st) \<longrightarrow> cleanupVolumes_result env = Inr False)
            \<and> checkIfAllLoadbalancersAreGone_result env = Inr True
            \<and> removeInClusterFinalizers_result env = None)"
    by (simp add: removal_due_def)
  with f show ?thesis by blast
qed


lemma run_in_cluster_all_done:
  "cleanupInClusterResources env_all_done
     \<lparr>cluster = example_cluster [InClusterLBCleanupFinalizer, InClusterPVCleanupFinalizer,
                                  NodeDeletionFinalizer], trace = []\<rparr>
   = (\<lparr>cluster = example_cluster [NodeDeletionFinalizer],
       trace = [LBsCleanup, VolumesCleanup, LBsGoneCheck]\<rparr>, None)"
  by (simp add: pipeline_defs example_defs finalizer_defs)

lemma run_in_cluster_volume_deleted:
  "cleanupInClusterResources env_volume_deleted
     \<lparr>cluster = example_cluster [InClusterLBCleanupFinalizer, InClusterPVCleanupFinalizer,
                                  NodeDeletionFinalizer], trace = []\<rparr>
   = (\<lparr>cluster = example_cluster [InClusterLBCleanupFinalizer, InClusterPVCleanupFinalizer,
                                    NodeDeletionFinalizer],
       trace = [LBsCleanup, VolumesCleanup]\<rparr>, None)"
  by (simp add: pipeline_defs example_defs finalizer_defs)

theorem in_cluster_finalizers_removed_together_witness:
  "fins (fst (cleanupInClusterResources env_all_done
       \<lparr>cluster = example_cluster [InClusterLBCleanupFinalizer, InClusterPVCleanupFinalizer,
                                    NodeDeletionFinalizer], trace = []\<rparr>))
     = [NodeDeletionFinalizer]
   \<and> cleanupLBs_result env_all_done = Inr False
   \<and> cleanupVolumes_result env_all_done = Inr False
   \<and> checkIfAllLoadbalancersAreGone_result env_all_done = Inr True
   \<and> removeInClusterFinalizers_result env_all_done = None
   \<and> cleanupVolumes_result env_volume_deleted = Inr True
   \<and> fins (fst (cleanupInClusterResources env_volume_deleted
       \<lparr>cluster = example_cluster [InClusterLBCleanupFinalizer, InClusterPVCleanupFinalizer,
                                    NodeDeletionFinalizer], trace = []\<rparr>))
     = [InClusterLBCleanupFinalizer, InClusterPVCleanupFinalizer, NodeDeletionFinalizer]"
  using in_cluster_finalizers_removed_together [OF run_in_cluster_all_done]
        in_cluster_finalizers_removed_together [OF run_in_cluster_volume_deleted]
  unfolding run_in_cluster_all_done run_in_cluster_volume_deleted
  by (simp add: example_defs finalizer_defs)

text \<open>
  The claim as it was stated fails: with both finalizers on the Cluster, no load balancer and
  no volume deleted in the pass (so the volumes are known to be gone), the volume finalizer
  stays for as long as the load-balancer check is negative, and goes in the same write as
  the load-balancer finalizer once that check is positive.
\<close>

theorem in_cluster_finalizers_independent_counterexample:
  "cleanupLBs_result env_lbs_remaining = Inr False
   \<and> cleanupVolumes_result env_lbs_remaining = Inr False
   \<and> InClusterPVCleanupFinalizer
       \<in> set (fins (fst (cleanupInClusterResources env_lbs_remaining
            \<lparr>cluster = example_cluster [InClusterLBCleanupFinalizer, InClusterPVCleanupFinalizer],
             trace = []\<rparr>)))
   \<and> cleanupVolumes_result env_all_done = cleanupVolumes_result env_lbs_remaining
   \<and> fins (fst (cleanupInClusterResources env_all_done
            \<lparr>cluster = example_cluster [InClusterLBCleanupFinalizer, InClusterPVCleanupFinalizer],
             trace = []\<rparr>)) = []"
  by (simp add: pipeline_defs example_defs finalizer_defs)

section \<open>Verified properties: Azure cleanup\<close>

lemma finalizerOf_inj: "finalizerOf p = finalizerOf q \<longleftrightarrow> p = q"
  by (cases p; cases q)
     (simp_all add: FinalizerSecurityGroup_def FinalizerRouteTable_def FinalizerSubnet_def
        FinalizerVNet_def FinalizerResourceGroup_def FinalizerAvailabilitySet_def)

lemma cleanupBlock_absent:
  "\<not> present (cluster st) p \<Longrightarrow> cleanupBlock env p st = (st, None)"
  by (simp add: cleanupBlock_def present_def HasFinalizer_def)

lemma cleanupBlock_ok:
  assumes "present (cluster st) p" "Azure (Cloud (Spec (cluster st))) = Some az"
    "tolerated env p" "update_result env p = None"
  shows "cleanupBlock env p st =
     (\<lparr>cluster = (cluster st)\<lparr>Meta := RemoveFinalizer (Meta (cluster st)) [finalizerOf p]\<rparr>,
       trace = trace st @ [DeleteCall p, UpdateCall p]\<rparr>, None)"
  using assms
  by (auto simp add: cleanupBlock_def present_def HasFinalizer_def tolerated_def clusterUpdater_def Let_def
      split: option.splits)

lemma cleanupBlock_delete_fails:
  assumes "present (cluster st) p" "Azure (Cloud (Spec (cluster st))) = Some az"
    "delete_result env p = Some err" "\<not> isNotFoundDetailed err"
  shows "cleanupBlock env p st =
     (\<lparr>cluster = cluster st, trace = trace st @ [DeleteCall p]\<rparr>,
      Some (Returned (Some (cluster st), Some (deleteFailure p az err))))"
  using assms
  by (simp add: cleanupBlock_def present_def HasFinalizer_def Let_def)

lemma cleanupBlock_update_fails:
  assumes "present (cluster st) p" "Azure (Cloud (Spec (cluster st))) = Some az"
    "tolerated env p" "update_result env p = Some err"
  shows "cleanupBlock env p st =
     (\<lparr>cluster = cluster st, trace = trace st @ [DeleteCall p, UpdateCall p]\<rparr>,
      Some (Returned (None, Some err)))"
  using assms
  by (auto simp add: cleanupBlock_def present_def HasFinalizer_def tolerated_def clusterUpdater_def Let_def
      split: option.splits)

lemma cleanupBlock_cases:
  obtains (absent) "\<not> present (cluster st) p"
  | (ok) "present (cluster st) p" "tolerated env p" "update_result env p = None"
  | (delete_fails) err where "present (cluster st) p" "delete_result env p = Some err"
      "\<not> isNotFoundDetailed err"
  | (update_fails) err where "present (cluster st) p" "tolerated env p"
      "update_result env p = Some err"
  by (cases "present (cluster st) p"; cases "delete_result env p"; cases "update_result env p")
     (auto simp: tolerated_def)

lemma RemoveFinalizer_fins [simp]:
  "Finalizers (RemoveFinalizer m names) = filter (\<lambda>f. f \<notin> set names) (Finalizers m)"
  by (simp add: RemoveFinalizer_def)

lemma cleanupBlocks_success:
  assumes "Azure (Cloud (Spec (cluster st))) = Some az"
    and "\<forall>p \<in> set ps. present (cluster st) p \<longrightarrow> tolerated env p \<and> update_result env p = None"
  shows "\<exists>st'. cleanupBlocks env ps st = (st', Returned (Some (cluster st'), None))
           \<and> fins st' = filter (\<lambda>f. f \<notin> finalizerOf ` set ps) (fins st)
           \<and> (\<forall>p \<in> set ps. present (cluster st) p \<longrightarrow> UpdateCall p \<in> set (trace st'))
           \<and> set (trace st) \<subseteq> set (trace st')"
  using assms
proof (induction ps arbitrary: st)
  case Nil
  then show ?case by simp
next
  case (Cons p ps)
  show ?case
  proof (cases "present (cluster st) p")
    case False
    then have b: "cleanupBlock env p st = (st, None)" by (rule cleanupBlock_absent)
    from Cons.IH[of st] Cons.prems obtain st' where
      r: "cleanupBlocks env ps st = (st', Returned (Some (cluster st'), None))"
      and f: "fins st' = filter (\<lambda>f. f \<notin> finalizerOf ` set ps) (fins st)"
      and u: "\<forall>p \<in> set ps. present (cluster st) p \<longrightarrow> UpdateCall p \<in> set (trace st')"
      and t: "set (trace st) \<subseteq> set (trace st')"
      by auto
    from False have "finalizerOf p \<notin> set (fins st)" by (simp add: present_def)
    then have "filter (\<lambda>f. f \<notin> finalizerOf ` set (p # ps)) (fins st)
             = filter (\<lambda>f. f \<notin> finalizerOf ` set ps) (fins st)"
      by (intro filter_cong) auto
    with b r f u t False show ?thesis by auto
  next
    case True
    with Cons.prems have tol: "tolerated env p" and upd: "update_result env p = None" by auto
    let ?st1 = "\<lparr>cluster = (cluster st)\<lparr>Meta := RemoveFinalizer (Meta (cluster st)) [finalizerOf p]\<rparr>,
       trace = trace st @ [DeleteCall p, UpdateCall p]\<rparr>"
    have b: "cleanupBlock env p st = (?st1, None)"
      using cleanupBlock_ok[OF True Cons.prems(1) tol upd] .
    have az1: "Azure (Cloud (Spec (cluster ?st1))) = Some az" using Cons.prems(1) by simp
    have pres: "\<forall>q \<in> set ps. present (cluster ?st1) q \<longrightarrow> tolerated env q \<and> update_result env q = None"
      using Cons.prems(2) by (auto simp: present_def)
    from Cons.IH[OF az1 pres] obtain st' where
      r: "cleanupBlocks env ps ?st1 = (st', Returned (Some (cluster st'), None))"
      and f: "fins st' = filter (\<lambda>f. f \<notin> finalizerOf ` set ps) (fins ?st1)"
      and u: "\<forall>q \<in> set ps. present (cluster ?st1) q \<longrightarrow> UpdateCall q \<in> set (trace st')"
      and t: "set (trace ?st1) \<subseteq> set (trace st')"
      by auto
    have f1: "fins ?st1 = filter (\<lambda>f. f \<noteq> finalizerOf p) (fins st)" by simp
    have f': "fins st' = filter (\<lambda>f. f \<notin> finalizerOf ` set (p # ps)) (fins st)"
      unfolding f f1 filter_filter by (rule filter_cong) auto
    have u': "\<forall>q \<in> set (p # ps). present (cluster st) q \<longrightarrow> UpdateCall q \<in> set (trace st')"
    proof
      fix q assume q: "q \<in> set (p # ps)"
      show "present (cluster st) q \<longrightarrow> UpdateCall q \<in> set (trace st')"
      proof (cases "q = p")
        case True with t show ?thesis by auto
      next
        case False
        with q have "q \<in> set ps" by simp
        moreover from False have "present (cluster st) q \<Longrightarrow> present (cluster ?st1) q"
          by (simp add: present_def finalizerOf_inj)
        ultimately show ?thesis using u by blast
      qed
    qed
    from b r f' u' t show ?thesis by auto
  qed
qed

lemma stopped_at_skip:
  assumes "stopped_at env az st st' c' e qs p" "\<not> present (cluster st) q"
  shows "stopped_at env az st st' c' e (q # qs) p"
proof -
  from assms(2) have "finalizerOf q \<notin> set (fins st)" by (simp add: present_def)
  then have "filter (\<lambda>f. f \<notin> finalizerOf ` set (q # qs)) (fins st)
           = filter (\<lambda>f. f \<notin> finalizerOf ` set qs) (fins st)"
    by (intro filter_cong) auto
  with assms(1) show ?thesis unfolding stopped_at_def by auto
qed

lemma stopped_at_after:
  assumes s: "stopped_at env az st1 st' c' e qs p"
    and c1: "cluster st1 = (cluster st)\<lparr>Meta := RemoveFinalizer (Meta (cluster st)) [finalizerOf q]\<rparr>"
    and t1: "trace st1 = trace st @ [DeleteCall q, UpdateCall q]"
  shows "stopped_at env az st st' c' e (q # qs) p"
proof -
  have f1: "fins st1 = filter (\<lambda>f. f \<noteq> finalizerOf q) (fins st)" using c1 by simp
  have pr: "present (cluster st) p" using s f1 by (auto simp: stopped_at_def present_def)
  have ff: "filter (\<lambda>f. f \<notin> finalizerOf ` set qs) (fins st1)
          = filter (\<lambda>f. f \<notin> finalizerOf ` set (q # qs)) (fins st)"
    unfolding f1 filter_filter by (rule filter_cong) auto
  have tr: "set (trace st1) = set (trace st) \<union> {DeleteCall q, UpdateCall q}" using t1 by auto
  from s show ?thesis unfolding stopped_at_def ff tr using pr by auto
qed

lemma cleanupBlocks_returns:
  assumes "Azure (Cloud (Spec (cluster st))) = Some az"
    and "cleanupBlocks env ps st = (st', r)"
  shows "(r = Returned (Some (cluster st'), None))
       \<or> (\<exists>c' e qs p rs. r = Returned (c', Some e) \<and> ps = qs @ p # rs
             \<and> stopped_at env az st st' c' e qs p)"
  using assms
proof (induction ps arbitrary: st)
  case Nil
  then show ?case by auto
next
  case (Cons q ps)
  note az = Cons.prems(1) and run = Cons.prems(2)
  show ?case
  proof (cases rule: cleanupBlock_cases[where p = q and env = env and st = st])
    case absent
    with run have r1: "cleanupBlocks env ps st = (st', r)" by (simp add: cleanupBlock_absent)
    from Cons.IH[OF az r1] show ?thesis
    proof
      assume "r = Returned (Some (cluster st'), None)" then show ?thesis by simp
    next
      assume "\<exists>c' e qs p rs. r = Returned (c', Some e) \<and> ps = qs @ p # rs
             \<and> stopped_at env az st st' c' e qs p"
      then obtain c' e qs p rs where r: "r = Returned (c', Some e)" and d: "ps = qs @ p # rs"
        and s: "stopped_at env az st st' c' e qs p" by blast
      from d have "q # ps = (q # qs) @ p # rs" by simp
      with r stopped_at_skip[OF s absent] show ?thesis by blast
    qed
  next
    case ok
    let ?st1 = "\<lparr>cluster = (cluster st)\<lparr>Meta := RemoveFinalizer (Meta (cluster st)) [finalizerOf q]\<rparr>,
       trace = trace st @ [DeleteCall q, UpdateCall q]\<rparr>"
    from run cleanupBlock_ok[OF ok(1) az ok(2,3)]
    have r1: "cleanupBlocks env ps ?st1 = (st', r)" by simp
    have az1: "Azure (Cloud (Spec (cluster ?st1))) = Some az" using az by simp
    from Cons.IH[OF az1 r1] show ?thesis
    proof
      assume "r = Returned (Some (cluster st'), None)" then show ?thesis by simp
    next
      assume "\<exists>c' e qs p rs. r = Returned (c', Some e) \<and> ps = qs @ p # rs
             \<and> stopped_at env az ?st1 st' c' e qs p"
      then obtain c' e qs p rs where r: "r = Returned (c', Some e)" and d: "ps = qs @ p # rs"
        and s: "stopped_at env az ?st1 st' c' e qs p" by blast
      from d have d': "q # ps = (q # qs) @ p # rs" by simp
      have "stopped_at env az st st' c' e (q # qs) p"
        by (rule stopped_at_after[OF s]) simp_all
      with r d' show ?thesis by blast
    qed
  next
    case (delete_fails err)
    from run cleanupBlock_delete_fails[OF delete_fails(1) az delete_fails(2,3)]
    have st': "st' = \<lparr>cluster = cluster st, trace = trace st @ [DeleteCall q]\<rparr>"
      and r: "r = Returned (Some (cluster st), Some (deleteFailure q az err))" by simp_all
    have "stopped_at env az st st' (Some (cluster st)) (deleteFailure q az err) [] q"
      unfolding stopped_at_def using delete_fails st' by auto
    moreover have "q # ps = [] @ q # ps" by simp
    ultimately show ?thesis using r by blast
  next
    case (update_fails err)
    from run cleanupBlock_update_fails[OF update_fails(1) az update_fails(2,3)]
    have st': "st' = \<lparr>cluster = cluster st, trace = trace st @ [DeleteCall q, UpdateCall q]\<rparr>"
      and r: "r = Returned (None, Some err)" by simp_all
    have "stopped_at env az st st' None err [] q"
      unfolding stopped_at_def using update_fails st' by auto
    moreover have "q # ps = [] @ q # ps" by simp
    ultimately show ?thesis using r by blast
  qed
qed

lemma cleanupBlock_404:
  assumes "isNotFoundDetailed err"
  shows "cleanupBlock (env\<lparr>delete_result := (delete_result env)(p := Some err)\<rparr>) q st
       = cleanupBlock (env\<lparr>delete_result := (delete_result env)(p := None)\<rparr>) q st"
  using assms
  by (cases "Azure (Cloud (Spec (cluster st)))"; cases "q = p"; cases "delete_result env q")
     (simp_all add: cleanupBlock_def Let_def)

lemma cleanupBlocks_404:
  assumes "isNotFoundDetailed err"
  shows "cleanupBlocks (env\<lparr>delete_result := (delete_result env)(p := Some err)\<rparr>) ps st
       = cleanupBlocks (env\<lparr>delete_result := (delete_result env)(p := None)\<rparr>) ps st"
  by (induction ps arbitrary: st) (simp_all add: cleanupBlock_404[OF assms])

lemma CleanUpCloudProvider_unfold:
  "GetCredentialsForCluster_result env = Some e
     \<Longrightarrow> CleanUpCloudProvider env c = (\<lparr>cluster = c, trace = []\<rparr>, Returned (None, Some e))"
  "GetCredentialsForCluster_result env = None \<Longrightarrow> GetClientSet_result env = Some e
     \<Longrightarrow> CleanUpCloudProvider env c = (\<lparr>cluster = c, trace = []\<rparr>, Returned (None, Some e))"
  "GetCredentialsForCluster_result env = None \<Longrightarrow> GetClientSet_result env = None
     \<Longrightarrow> CleanUpCloudProvider env c = cleanupBlocks env cleanupOrder \<lparr>cluster = c, trace = []\<rparr>"
  by (simp_all add: CleanUpCloudProvider_def)

lemma CleanUpCloudProvider_404:
  assumes "isNotFoundDetailed err"
  shows "CleanUpCloudProvider (env\<lparr>delete_result := (delete_result env)(p := Some err)\<rparr>) c
       = CleanUpCloudProvider (env\<lparr>delete_result := (delete_result env)(p := None)\<rparr>) c"
  by (cases "GetCredentialsForCluster_result env"; cases "GetClientSet_result env")
     (simp_all add: CleanUpCloudProvider_unfold cleanupBlocks_404[OF assms])

lemma cleanupOrder_all: "set cleanupOrder = UNIV"
proof -
  have "p \<in> set cleanupOrder" for p by (cases p) (simp_all add: cleanupOrder_def)
  then show ?thesis by blast
qed

lemma cleanupOrder_distinct: "distinct cleanupOrder"
  by (simp add: cleanupOrder_def)

lemma CleanUpCloudProvider_success:
  assumes az: "Azure (Cloud (Spec c)) = Some az"
    and run: "CleanUpCloudProvider env c = (st', r)"
    and ok: "GetCredentialsForCluster_result env = None" "GetClientSet_result env = None"
      "\<forall>p. present c p \<longrightarrow> tolerated env p \<and> update_result env p = None"
  shows "r = Returned (Some (cluster st'), None)
       \<and> fins st' = filter (\<lambda>f. f \<notin> range finalizerOf) (Finalizers (Meta c))
       \<and> (\<forall>p. present c p \<longrightarrow> UpdateCall p \<in> set (trace st'))"
proof -
  let ?st = "\<lparr>cluster = c, trace = []\<rparr> :: azure_state"
  have r: "cleanupBlocks env cleanupOrder ?st = (st', r)"
    using run ok(1,2) by (simp add: CleanUpCloudProvider_unfold)
  have "Azure (Cloud (Spec (cluster ?st))) = Some az" using az by simp
  moreover have "\<forall>p \<in> set cleanupOrder. present (cluster ?st) p
                   \<longrightarrow> tolerated env p \<and> update_result env p = None"
    using ok(3) by simp
  ultimately obtain st'' where
    "cleanupBlocks env cleanupOrder ?st = (st'', Returned (Some (cluster st''), None))"
    "fins st'' = filter (\<lambda>f. f \<notin> finalizerOf ` set cleanupOrder) (fins ?st)"
    "\<forall>p \<in> set cleanupOrder. present (cluster ?st) p \<longrightarrow> UpdateCall p \<in> set (trace st'')"
    using cleanupBlocks_success[of ?st az cleanupOrder env] by blast
  with r show ?thesis by (auto simp add: cleanupOrder_all)
qed

lemma CleanUpCloudProvider_error:
  assumes az: "Azure (Cloud (Spec c)) = Some az"
    and run: "CleanUpCloudProvider env c = (st', r)"
  shows "r \<noteq> Panicked"
    and "r = Returned (c', Some e) \<Longrightarrow>
          GetCredentialsForCluster_result env = Some e
        \<or> GetClientSet_result env = Some e
        \<or> (\<exists>p. present c p \<and> tolerated env p \<and> update_result env p = Some e \<and> c' = None)
        \<or> (\<exists>p err qs rs. cleanupOrder = qs @ p # rs \<and> present c p
              \<and> delete_result env p = Some err \<and> \<not> isNotFoundDetailed err
              \<and> e = deleteFailure p az err \<and> c' = Some (cluster st')
              \<and> (\<forall>q \<in> set (p # rs). (present (cluster st') q \<longleftrightarrow> present c q)
                     \<and> UpdateCall q \<notin> set (trace st'))
              \<and> (\<forall>q \<in> set rs. DeleteCall q \<notin> set (trace st')))"
proof -
  let ?st = "\<lparr>cluster = c, trace = []\<rparr> :: azure_state"
  have az': "Azure (Cloud (Spec (cluster ?st))) = Some az" using az by simp
  show "r \<noteq> Panicked"
  proof (cases "GetCredentialsForCluster_result env = None \<and> GetClientSet_result env = None")
    case True
    with run have "cleanupBlocks env cleanupOrder ?st = (st', r)"
      by (simp add: CleanUpCloudProvider_unfold)
    from cleanupBlocks_returns[OF az' this] show ?thesis by auto
  next
    case False
    with run show ?thesis
      by (cases "GetCredentialsForCluster_result env"; cases "GetClientSet_result env")
         (auto simp: CleanUpCloudProvider_unfold)
  qed
  assume r: "r = Returned (c', Some e)"
  show "GetCredentialsForCluster_result env = Some e
        \<or> GetClientSet_result env = Some e
        \<or> (\<exists>p. present c p \<and> tolerated env p \<and> update_result env p = Some e \<and> c' = None)
        \<or> (\<exists>p err qs rs. cleanupOrder = qs @ p # rs \<and> present c p
              \<and> delete_result env p = Some err \<and> \<not> isNotFoundDetailed err
              \<and> e = deleteFailure p az err \<and> c' = Some (cluster st')
              \<and> (\<forall>q \<in> set (p # rs). (present (cluster st') q \<longleftrightarrow> present c q)
                     \<and> UpdateCall q \<notin> set (trace st'))
              \<and> (\<forall>q \<in> set rs. DeleteCall q \<notin> set (trace st')))"
  proof (cases "GetCredentialsForCluster_result env = None \<and> GetClientSet_result env = None")
    case False
    with run r show ?thesis
      by (cases "GetCredentialsForCluster_result env"; cases "GetClientSet_result env")
         (auto simp: CleanUpCloudProvider_unfold)
  next
    case True
    with run have "cleanupBlocks env cleanupOrder ?st = (st', r)"
      by (simp add: CleanUpCloudProvider_unfold)
    from cleanupBlocks_returns[OF az' this] r obtain qs p rs where
      d: "cleanupOrder = qs @ p # rs" and s: "stopped_at env az ?st st' c' e qs p"
      by auto
    from cleanupOrder_distinct d have dist: "distinct (qs @ p # rs)" by simp
    from s have pr: "present c p"
      and f: "fins st' = filter (\<lambda>f. f \<notin> finalizerOf ` set qs) (Finalizers (Meta c))"
      by (simp_all add: stopped_at_def)
    from s consider
      (del) err where "delete_result env p = Some err" "\<not> isNotFoundDetailed err"
        "e = deleteFailure p az err" "c' = Some (cluster st')"
        "set (trace st') \<subseteq> DeleteCall ` set (qs @ [p]) \<union> UpdateCall ` set qs"
      | (upd) "tolerated env p" "update_result env p = Some e" "c' = None"
      unfolding stopped_at_def by auto
    then show ?thesis
    proof cases
      case upd
      with pr show ?thesis by blast
    next
      case del
      have keep: "\<forall>q \<in> set (p # rs). (present (cluster st') q \<longleftrightarrow> present c q)
                     \<and> UpdateCall q \<notin> set (trace st')"
      proof
        fix q assume q: "q \<in> set (p # rs)"
        with dist have nq: "q \<notin> set qs" by auto
        then have "finalizerOf q \<notin> finalizerOf ` set qs" by (auto simp: finalizerOf_inj)
        then have "present (cluster st') q \<longleftrightarrow> present c q"
          unfolding present_def f by simp
        moreover from nq del(5) have "UpdateCall q \<notin> set (trace st')" by auto
        ultimately show "(present (cluster st') q \<longleftrightarrow> present c q)
                     \<and> UpdateCall q \<notin> set (trace st')" by simp
      qed
      have nodel: "\<forall>q \<in> set rs. DeleteCall q \<notin> set (trace st')"
      proof
        fix q assume q: "q \<in> set rs"
        with dist have "q \<notin> set qs" "q \<noteq> p" by auto
        with del(5) show "DeleteCall q \<notin> set (trace st')" by auto
      qed
      from d pr del(1-4) keep nodel show ?thesis by blast
    qed
  qed
qed

lemmas azure_example_defs = env_azure_ok_def env_sg_gone_def env_sg_gone_pointer_def
  env_rt_forbidden_def env_update_conflict_def example_cluster_def example_azure_def

lemmas azure_finalizer_defs = FinalizerSecurityGroup_def FinalizerRouteTable_def FinalizerSubnet_def
  FinalizerVNet_def FinalizerResourceGroup_def FinalizerAvailabilitySet_def

lemmas azure_cleanup_defs = CleanUpCloudProvider_def cleanupOrder_def cleanupBlock_def
  clusterUpdater_def isNotFoundDetailed_def StatusNotFound_def HasFinalizer_def RemoveFinalizer_def
  Let_def

text \<open>
  The outcomes of \<open>CleanUpCloudProvider\<close> on a Cluster with a non-nil Azure sub-spec, in terms
  of the test the code applies to a failed delete call (\<open>isNotFoundDetailed\<close>): it never
  panics; an error that passes the test is handled like a successful delete; if nothing
  fails, every Azure finalizer the Cluster carries is removed through the updater; and an
  error is returned for one of four reasons.
\<close>

lemma CleanUpCloudProvider_outcomes:
  assumes az: "Azure (Cloud (Spec c)) = Some az"
    and run: "CleanUpCloudProvider env c = (st', r)"
  shows "r \<noteq> Panicked
       \<and> (\<forall>p err. isNotFoundDetailed err \<longrightarrow>
             CleanUpCloudProvider (env\<lparr>delete_result := (delete_result env)(p := Some err)\<rparr>) c
           = CleanUpCloudProvider (env\<lparr>delete_result := (delete_result env)(p := None)\<rparr>) c)
       \<and> (GetCredentialsForCluster_result env = None \<and> GetClientSet_result env = None
            \<and> (\<forall>p. present c p \<longrightarrow> tolerated env p \<and> update_result env p = None)
           \<longrightarrow> r = Returned (Some (cluster st'), None)
             \<and> fins st' = filter (\<lambda>f. f \<notin> range finalizerOf) (Finalizers (Meta c))
             \<and> (\<forall>p. present c p \<longrightarrow> UpdateCall p \<in> set (trace st')))
       \<and> (\<forall>c' e. r = Returned (c', Some e) \<longrightarrow>
             GetCredentialsForCluster_result env = Some e
           \<or> GetClientSet_result env = Some e
           \<or> (\<exists>p. present c p \<and> tolerated env p \<and> update_result env p = Some e \<and> c' = None)
           \<or> (\<exists>p err qs rs. cleanupOrder = qs @ p # rs \<and> present c p
                 \<and> delete_result env p = Some err \<and> \<not> isNotFoundDetailed err
                 \<and> e = deleteFailure p az err \<and> c' = Some (cluster st')
                 \<and> (\<forall>q \<in> set (p # rs). (present (cluster st') q \<longleftrightarrow> present c q)
                        \<and> UpdateCall q \<notin> set (trace st'))
                 \<and> (\<forall>q \<in> set rs. DeleteCall q \<notin> set (trace st'))))"
proof -
  have a: "r \<noteq> Panicked" by (rule CleanUpCloudProvider_error(1)[OF az run])
  have b: "\<forall>p err. isNotFoundDetailed err \<longrightarrow>
             CleanUpCloudProvider (env\<lparr>delete_result := (delete_result env)(p := Some err)\<rparr>) c
           = CleanUpCloudProvider (env\<lparr>delete_result := (delete_result env)(p := None)\<rparr>) c"
    using CleanUpCloudProvider_404 by blast
  have c: "GetCredentialsForCluster_result env = None \<and> GetClientSet_result env = None
            \<and> (\<forall>p. present c p \<longrightarrow> tolerated env p \<and> update_result env p = None)
           \<longrightarrow> r = Returned (Some (cluster st'), None)
             \<and> fins st' = filter (\<lambda>f. f \<notin> range finalizerOf) (Finalizers (Meta c))
             \<and> (\<forall>p. present c p \<longrightarrow> UpdateCall p \<in> set (trace st'))"
    using CleanUpCloudProvider_success[OF az run] by blast
  have d: "\<forall>c' e. r = Returned (c', Some e) \<longrightarrow>
             GetCredentialsForCluster_result env = Some e
           \<or> GetClientSet_result env = Some e
           \<or> (\<exists>p. present c p \<and> tolerated env p \<and> update_result env p = Some e \<and> c' = None)
           \<or> (\<exists>p err qs rs. cleanupOrder = qs @ p # rs \<and> present c p
                 \<and> delete_result env p = Some err \<and> \<not> isNotFoundDetailed err
                 \<and> e = deleteFailure p az err \<and> c' = Some (cluster st')
                 \<and> (\<forall>q \<in> set (p # rs). (present (cluster st') q \<longleftrightarrow> present c q)
                        \<and> UpdateCall q \<notin> set (trace st'))
                 \<and> (\<forall>q \<in> set rs. DeleteCall q \<notin> set (trace st')))"
    using CleanUpCloudProvider_error(2)[OF az run] by blast
  from a b c d show ?thesis by (intro conjI)
qed


text \<open>A delete call of the first piece whose finalizer the Cluster carries that fails with
  an error not passing the test ends the pass: the wrapped error is returned with the
  Cluster, whose finalizers are untouched, and no other call is made.\<close>

lemma cleanupBlocks_delete_failure:
  assumes az: "Azure (Cloud (Spec (cluster st))) = Some az"
    and before: "\<forall>q \<in> set qs. \<not> present (cluster st) q"
    and p: "present (cluster st) p"
    and err: "delete_result env p = Some err" "\<not> isNotFoundDetailed err"
  shows "cleanupBlocks env (qs @ p # rs) st =
     (\<lparr>cluster = cluster st, trace = trace st @ [DeleteCall p]\<rparr>,
      Returned (Some (cluster st), Some (deleteFailure p az err)))"
  using before
  by (induction qs)
     (simp_all add: cleanupBlock_absent cleanupBlock_delete_fails[OF p az err])

lemma DetailedError_value_not_matched:
  "errors_As_DetailedError (DetailedError code None) = None"
  "\<not> isNotFoundDetailed (DetailedError code None)"
  "isNotFoundDetailed (DetailedErrorPtr 404 original)"
  by (simp_all add: isNotFoundDetailed_def StatusNotFound_def)

lemma example_cluster_azure:
  "Azure (Cloud (Spec (example_cluster fs))) = Some example_azure"
  by (simp add: example_cluster_def)

text \<open>The tolerance the code attempts: were the 404 handed over as a pointer, both finalizers
  would be removed and no error returned.\<close>

lemma run_sg_gone_pointer:
  "CleanUpCloudProvider env_sg_gone_pointer
     (example_cluster [FinalizerSecurityGroup, FinalizerRouteTable, CredentialsSecretsCleanupFinalizer])
   = (\<lparr>cluster = example_cluster [CredentialsSecretsCleanupFinalizer],
       trace = [DeleteCall SecurityGroupPiece, UpdateCall SecurityGroupPiece,
                DeleteCall RouteTablePiece, UpdateCall RouteTablePiece]\<rparr>,
      Returned (Some (example_cluster [CredentialsSecretsCleanupFinalizer]), None))"
  by (simp add: azure_cleanup_defs azure_example_defs azure_finalizer_defs
        CredentialsSecretsCleanupFinalizer_def)

text \<open>A refused delete call and a refused write of the updater both end the pass with an
  error.\<close>

lemma run_rt_forbidden:
  "CleanUpCloudProvider env_rt_forbidden
     (example_cluster [FinalizerSecurityGroup, FinalizerRouteTable, FinalizerResourceGroup])
   = (\<lparr>cluster = example_cluster [FinalizerRouteTable, FinalizerResourceGroup],
       trace = [DeleteCall SecurityGroupPiece, UpdateCall SecurityGroupPiece,
                DeleteCall RouteTablePiece]\<rparr>,
      Returned (Some (example_cluster [FinalizerRouteTable, FinalizerResourceGroup]),
                Some (Wrapf ''failed to delete route table %q: %w'' [''rt'']
                        (DetailedError 403 None))))"
  by (simp add: azure_cleanup_defs azure_example_defs azure_finalizer_defs)

lemma run_update_conflict:
  "CleanUpCloudProvider env_update_conflict (example_cluster [FinalizerSecurityGroup])
   = (\<lparr>cluster = example_cluster [FinalizerSecurityGroup],
       trace = [DeleteCall SecurityGroupPiece, UpdateCall SecurityGroupPiece]\<rparr>,
      Returned (None, Some (StatusError ''Conflict'')))"
  by (simp add: azure_cleanup_defs azure_example_defs azure_finalizer_defs)

text \<open>
  C3. A delete call that fails because the Azure resource is already gone (a detailed error
  of status 404) is to count as success: the stage's finalizer is removed through the
  updater and no error is returned. The code tests \<open>errors.As(err, &detErr)\<close> with a target
  of type \<open>*autorest.DetailedError\<close>, while the SDK reports the 404 with a
  \<open>DetailedError\<close> struct value, which that target does not match: on a Cluster whose
  security group was deleted out of band, the delete call's 404 is returned as an error
  ("failed to delete security group"), the updater is not called, and the security-group
  finalizer and the finalizers after it stay.
\<close>

theorem CleanUpCloudProvider_returns_not_found_as_error:
  "delete_result env_sg_gone SecurityGroupPiece = Some (DetailedError 404 None)
   \<and> CleanUpCloudProvider env_sg_gone
        (example_cluster [FinalizerSecurityGroup, FinalizerRouteTable,
                          CredentialsSecretsCleanupFinalizer])
      = (\<lparr>cluster = example_cluster [FinalizerSecurityGroup, FinalizerRouteTable,
                                      CredentialsSecretsCleanupFinalizer],
          trace = [DeleteCall SecurityGroupPiece]\<rparr>,
         Returned (Some (example_cluster [FinalizerSecurityGroup, FinalizerRouteTable,
                                          CredentialsSecretsCleanupFinalizer]),
                   Some (Wrapf ''failed to delete security group %q: %w'' [''sg'']
                           (DetailedError 404 None))))"
  by (simp add: azure_cleanup_defs azure_example_defs azure_finalizer_defs
        CredentialsSecretsCleanupFinalizer_def)

section \<open>Verified properties: Azure reconciliation\<close>

lemma assignGuard_other: "p \<noteq> AvailabilitySetPiece \<Longrightarrow> assignGuard p az"
  by (cases p) simp_all

lemma reconcileBlock_skip:
  assumes "Azure (Cloud (Spec (cluster st))) = Some az"
    "\<not> ((force \<or> specField p az = []) \<and> assignGuard p az)"
  shows "reconcileBlock env force p st = (st, None)"
  using assms by (auto simp add: reconcileBlock_def)

lemma reconcileBlock_call:
  assumes "Azure (Cloud (Spec (cluster st))) = Some az"
    "(force \<or> specField p az = []) \<and> assignGuard p az"
  shows "reconcileBlock env force p st =
     (case reconcile_helper env p (cluster st) of
        Inl err \<Rightarrow> (\<lparr>cluster = cluster st, trace = trace st @ [ReconcileCall p az]\<rparr>,
                     Some (Returned (None, Some err)))
      | Inr c \<Rightarrow> (\<lparr>cluster = c, trace = trace st @ [ReconcileCall p az]\<rparr>, None))"
  using assms by (auto simp add: reconcileBlock_def Let_def split: sum.splits)

lemma reconcileBlock_nil:
  "Azure (Cloud (Spec (cluster st))) = None \<Longrightarrow> reconcileBlock env force p st = (st, Some Panicked)"
  by (simp add: reconcileBlock_def)

lemma reconcileBlock_trace:
  assumes "reconcileBlock env force p st = (st1, r)"
  shows "trace st1 = trace st
       \<or> (\<exists>az. Azure (Cloud (Spec (cluster st))) = Some az
              \<and> (force \<or> specField p az = []) \<and> assignGuard p az
              \<and> trace st1 = trace st @ [ReconcileCall p az])"
proof (cases "Azure (Cloud (Spec (cluster st)))")
  case None
  with assms show ?thesis by (simp add: reconcileBlock_nil)
next
  case (Some az)
  show ?thesis
  proof (cases "(force \<or> specField p az = []) \<and> assignGuard p az")
    case False
    with assms Some show ?thesis by (simp add: reconcileBlock_skip)
  next
    case True
    with assms Some show ?thesis
      by (cases "reconcile_helper env p (cluster st)") (auto simp add: reconcileBlock_call)
  qed
qed

lemma reconcileBlocks_only_when_empty:
  assumes "reconcileBlocks env False ps st = (st', r)"
    and "ReconcileCall p az \<in> set (trace st')"
  shows "ReconcileCall p az \<in> set (trace st) \<or> (specField p az = [] \<and> assignGuard p az)"
  using assms
proof (induction ps arbitrary: st)
  case Nil
  then show ?case by simp
next
  case (Cons q ps)
  obtain st1 r1 where b: "reconcileBlock env False q st = (st1, r1)"
    by (cases "reconcileBlock env False q st")
  from reconcileBlock_trace[OF b]
  have step: "ReconcileCall p az \<in> set (trace st1)
      \<Longrightarrow> ReconcileCall p az \<in> set (trace st) \<or> (specField p az = [] \<and> assignGuard p az)"
    by auto
  show ?case
  proof (cases r1)
    case None
    with Cons.prems b have "reconcileBlocks env False ps st1 = (st', r)" by simp
    from Cons.IH[OF this Cons.prems(2)] step show ?thesis by blast
  next
    case (Some x)
    with Cons.prems b have "st' = st1" by simp
    with Cons.prems(2) step show ?thesis by blast
  qed
qed

lemma reconcileBlocks_forced:
  assumes "reconcileBlocks env True (ps @ [AvailabilitySetPiece]) st = (st', Returned (Some c', None))"
    and "AvailabilitySetPiece \<notin> set ps"
  shows "set (trace st) \<subseteq> set (trace st')
       \<and> (\<forall>p \<in> set ps. \<exists>az. ReconcileCall p az \<in> set (trace st'))
       \<and> ((\<exists>az. ReconcileCall AvailabilitySetPiece az \<in> set (trace st')
                \<and> AssignAvailabilitySet az \<noteq> Some False)
          \<or> ((\<forall>az. ReconcileCall AvailabilitySetPiece az \<in> set (trace st')
                      \<longrightarrow> ReconcileCall AvailabilitySetPiece az \<in> set (trace st))
              \<and> (\<exists>az. Azure (Cloud (Spec (cluster st'))) = Some az
                        \<and> AssignAvailabilitySet az = Some False)))"
  using assms
proof (induction ps arbitrary: st)
  case Nil
  then have run: "reconcileBlocks env True [AvailabilitySetPiece] st = (st', Returned (Some c', None))"
    by simp
  show ?case
  proof (cases "Azure (Cloud (Spec (cluster st)))")
    case None
    with run show ?thesis by (simp add: reconcileBlock_nil)
  next
    case (Some az)
    show ?thesis
    proof (cases "assignGuard AvailabilitySetPiece az")
      case False
      with run Some have "st' = st" by (simp add: reconcileBlock_skip)
      moreover from False have "AssignAvailabilitySet az = Some False"
        by (cases "AssignAvailabilitySet az") auto
      ultimately show ?thesis using Some by auto
    next
      case True
      then have ns: "AssignAvailabilitySet az \<noteq> Some False" by auto
      from run Some True have "trace st' = trace st @ [ReconcileCall AvailabilitySetPiece az]"
        by (cases "reconcile_helper env AvailabilitySetPiece (cluster st)")
           (auto simp add: reconcileBlock_call)
      with ns show ?thesis by auto
    qed
  qed
next
  case (Cons q ps)
  from Cons.prems(2) have q: "q \<noteq> AvailabilitySetPiece" and nin: "AvailabilitySetPiece \<notin> set ps"
    by auto
  from Cons.prems(1)
  have run: "reconcileBlocks env True (q # (ps @ [AvailabilitySetPiece])) st
               = (st', Returned (Some c', None))" by simp
  show ?case
  proof (cases "Azure (Cloud (Spec (cluster st)))")
    case None
    with run show ?thesis by (simp add: reconcileBlock_nil)
  next
    case (Some az)
    have g: "(True \<or> specField q az = []) \<and> assignGuard q az"
      using assignGuard_other[OF q] by simp
    show ?thesis
    proof (cases "reconcile_helper env q (cluster st)")
      case (Inl err)
      with run Some g show ?thesis by (simp add: reconcileBlock_call)
    next
      case (Inr c1)
      let ?st1 = "\<lparr>cluster = c1, trace = trace st @ [ReconcileCall q az]\<rparr>"
      from run Some g Inr
      have r1: "reconcileBlocks env True (ps @ [AvailabilitySetPiece]) ?st1
                  = (st', Returned (Some c', None))"
        by (simp add: reconcileBlock_call)
      note ih = Cons.IH[OF r1 nin]
      from ih have sub: "set (trace ?st1) \<subseteq> set (trace st')" by blast
      then have a: "set (trace st) \<subseteq> set (trace st')"
        and qc: "ReconcileCall q az \<in> set (trace st')" by auto
      from ih qc have b: "\<forall>p \<in> set (q # ps). \<exists>az. ReconcileCall p az \<in> set (trace st')"
        by auto
      from ih q have c: "(\<exists>az. ReconcileCall AvailabilitySetPiece az \<in> set (trace st')
                \<and> AssignAvailabilitySet az \<noteq> Some False)
          \<or> ((\<forall>az. ReconcileCall AvailabilitySetPiece az \<in> set (trace st')
                      \<longrightarrow> ReconcileCall AvailabilitySetPiece az \<in> set (trace st))
              \<and> (\<exists>az. Azure (Cloud (Spec (cluster st'))) = Some az
                        \<and> AssignAvailabilitySet az = Some False))"
        by auto
      from a b c show ?thesis by blast
    qed
  qed
qed

lemma reconcileCluster_unfold:
  "GetCredentialsForCluster_result env = Some e
     \<Longrightarrow> reconcileCluster env c force setTags = (\<lparr>cluster = c, trace = []\<rparr>, Returned (None, Some e))"
  "GetCredentialsForCluster_result env = None \<Longrightarrow> GetClientSet_result env = Some e
     \<Longrightarrow> reconcileCluster env c force setTags = (\<lparr>cluster = c, trace = []\<rparr>, Returned (None, Some e))"
  "GetCredentialsForCluster_result env = None \<Longrightarrow> GetClientSet_result env = None
     \<Longrightarrow> reconcileCluster env c force setTags
           = reconcileBlocks env force reconcileOrder \<lparr>cluster = c, trace = []\<rparr>"
  by (simp_all add: reconcileCluster_def)

lemma reconcileCluster_blocks:
  assumes "reconcileCluster env c force setTags = (st', r)"
  shows "st' = \<lparr>cluster = c, trace = []\<rparr>
       \<or> reconcileBlocks env force reconcileOrder \<lparr>cluster = c, trace = []\<rparr> = (st', r)"
  using assms
  by (cases "GetCredentialsForCluster_result env"; cases "GetClientSet_result env")
     (auto simp: reconcileCluster_unfold)

lemma reconcileCluster_success:
  assumes "reconcileCluster env c force setTags = (st', Returned (Some c', None))"
  shows "reconcileBlocks env force reconcileOrder \<lparr>cluster = c, trace = []\<rparr>
           = (st', Returned (Some c', None))"
  using assms
  by (cases "GetCredentialsForCluster_result env"; cases "GetClientSet_result env")
     (auto simp: reconcileCluster_unfold)

lemma reconcileBlocks_trace_mono:
  "reconcileBlocks env force ps st = (st', r) \<Longrightarrow> set (trace st) \<subseteq> set (trace st')"
proof (induction ps arbitrary: st)
  case Nil
  then show ?case by simp
next
  case (Cons q ps)
  obtain st1 r1 where b: "reconcileBlock env force q st = (st1, r1)"
    by (cases "reconcileBlock env force q st")
  from reconcileBlock_trace[OF b] have m: "set (trace st) \<subseteq> set (trace st1)" by auto
  show ?case
  proof (cases r1)
    case None
    with Cons.prems b have "reconcileBlocks env force ps st1 = (st', r)" by simp
    from Cons.IH[OF this] m show ?thesis by blast
  next
    case (Some x)
    with Cons.prems b m show ?thesis by simp
  qed
qed

lemma reconcileBlocks_first_called:
  assumes az: "Azure (Cloud (Spec (cluster st))) = Some az"
    and g: "(force \<or> specField p az = []) \<and> assignGuard p az"
  shows "ReconcileCall p az \<in> set (trace (fst (reconcileBlocks env force (p # ps) st)))"
proof (cases "reconcile_helper env p (cluster st)")
  case (Inl err)
  then show ?thesis using az g by (simp add: reconcileBlock_call)
next
  case (Inr c1)
  let ?st1 = "\<lparr>cluster = c1, trace = trace st @ [ReconcileCall p az]\<rparr>"
  obtain st' r where r: "reconcileBlocks env force ps ?st1 = (st', r)"
    by (cases "reconcileBlocks env force ps ?st1")
  from reconcileBlocks_trace_mono[OF r] have "ReconcileCall p az \<in> set (trace st')" by auto
  with Inr r az g show ?thesis by (simp add: reconcileBlock_call)
qed

lemma reconcileBlocks_all_populated:
  assumes "Azure (Cloud (Spec (cluster st))) = Some az" "\<forall>p \<in> set ps. specField p az \<noteq> []"
  shows "reconcileBlocks env False ps st = (st, Returned (Some (cluster st), None))"
  using assms by (induction ps) (simp_all add: reconcileBlock_skip)

lemma reconcileOrder_split:
  "reconcileOrder = [ResourceGroupPiece, VNetPiece, SubnetPiece, RouteTablePiece, SecurityGroupPiece]
                      @ [AvailabilitySetPiece]"
  by (simp add: reconcileOrder_def)

lemma other_pieces:
  "p \<noteq> AvailabilitySetPiece
     \<Longrightarrow> p \<in> set [ResourceGroupPiece, VNetPiece, SubnetPiece, RouteTablePiece, SecurityGroupPiece]"
  by (cases p) simp_all

text \<open>
  C4 (as amended). \<open>ReconcileCluster\<close> runs \<open>reconcileCluster\<close> with \<open>force = true\<close>: in a
  pass that returns without error every piece (resource group, VNet, subnet, route table,
  security group) has been reconciled whatever its spec field held, and the availability set
  too unless \<open>AssignAvailabilitySet\<close> is false; the resource group is attempted first in any
  case. \<open>InitializeCloudProvider\<close> runs it with \<open>force = false\<close>: it reconciles a piece only
  when the piece's spec field is empty at that moment, and on a Cluster whose six fields
  are populated it calls nothing and returns the Cluster unchanged.
\<close>

theorem ReconcileCluster_forces_InitializeCloudProvider_fills_gaps:
  "(\<forall>st' c'. ReconcileCluster env c = (st', Returned (Some c', None)) \<longrightarrow>
        (\<forall>p. p \<noteq> AvailabilitySetPiece \<longrightarrow> (\<exists>az. ReconcileCall p az \<in> set (trace st')))
      \<and> ((\<exists>az. ReconcileCall AvailabilitySetPiece az \<in> set (trace st')
               \<and> AssignAvailabilitySet az \<noteq> Some False)
         \<or> ((\<forall>az. ReconcileCall AvailabilitySetPiece az \<notin> set (trace st'))
             \<and> (\<exists>az. Azure (Cloud (Spec (cluster st'))) = Some az
                     \<and> AssignAvailabilitySet az = Some False))))
   \<and> (\<forall>p az. ReconcileCall p az \<in> set (trace (fst (InitializeCloudProvider env c)))
         \<longrightarrow> specField p az = [] \<and> assignGuard p az)
   \<and> (\<forall>az. GetCredentialsForCluster_result env = None \<and> GetClientSet_result env = None
           \<and> Azure (Cloud (Spec c)) = Some az \<longrightarrow>
         ReconcileCall ResourceGroupPiece az \<in> set (trace (fst (ReconcileCluster env c)))
       \<and> (ResourceGroup az = [] \<longrightarrow>
            ReconcileCall ResourceGroupPiece az \<in> set (trace (fst (InitializeCloudProvider env c))))
       \<and> ((\<forall>p. specField p az \<noteq> []) \<longrightarrow>
            InitializeCloudProvider env c = (\<lparr>cluster = c, trace = []\<rparr>, Returned (Some c, None))))"
proof (intro conjI allI impI)
  fix st' c' p
  assume run: "ReconcileCluster env c = (st', Returned (Some c', None))"
  then have blocks: "reconcileBlocks env True
        ([ResourceGroupPiece, VNetPiece, SubnetPiece, RouteTablePiece, SecurityGroupPiece]
           @ [AvailabilitySetPiece]) \<lparr>cluster = c, trace = []\<rparr>
        = (st', Returned (Some c', None))"
    unfolding ReconcileCluster_def reconcileOrder_split[symmetric]
    by (rule reconcileCluster_success)
  note f = reconcileBlocks_forced[OF blocks, simplified]
  {
    assume "p \<noteq> AvailabilitySetPiece"
    from other_pieces[OF this] f show "\<exists>az. ReconcileCall p az \<in> set (trace st')"
      by auto
  }
  from f show "(\<exists>az. ReconcileCall AvailabilitySetPiece az \<in> set (trace st')
               \<and> AssignAvailabilitySet az \<noteq> Some False)
         \<or> ((\<forall>az. ReconcileCall AvailabilitySetPiece az \<notin> set (trace st'))
             \<and> (\<exists>az. Azure (Cloud (Spec (cluster st'))) = Some az
                     \<and> AssignAvailabilitySet az = Some False))"
    by blast
next
  fix p az
  assume m: "ReconcileCall p az \<in> set (trace (fst (InitializeCloudProvider env c)))"
  obtain st' r where run: "reconcileCluster env c False True = (st', r)"
    by (cases "reconcileCluster env c False True")
  with m have m': "ReconcileCall p az \<in> set (trace st')" by (simp add: InitializeCloudProvider_def)
  from reconcileCluster_blocks[OF run]
  have "specField p az = [] \<and> assignGuard p az"
  proof
    assume "st' = \<lparr>cluster = c, trace = []\<rparr>"
    with m' show ?thesis by simp
  next
    assume "reconcileBlocks env False reconcileOrder \<lparr>cluster = c, trace = []\<rparr> = (st', r)"
    from reconcileBlocks_only_when_empty[OF this m'] show ?thesis by simp
  qed
  then show "specField p az = []" and "assignGuard p az" by simp_all
next
  fix az
  assume h: "GetCredentialsForCluster_result env = None \<and> GetClientSet_result env = None
           \<and> Azure (Cloud (Spec c)) = Some az"
  then have az: "Azure (Cloud (Spec (cluster (\<lparr>cluster = c, trace = []\<rparr> :: azure_state)))) = Some az"
    by simp
  from h have u: "reconcileCluster env c force True
           = reconcileBlocks env force reconcileOrder \<lparr>cluster = c, trace = []\<rparr>" for force
    by (simp add: reconcileCluster_unfold)
  have o: "reconcileOrder = ResourceGroupPiece # [VNetPiece, SubnetPiece, RouteTablePiece,
             SecurityGroupPiece, AvailabilitySetPiece]"
    by (simp add: reconcileOrder_def)
  show "ReconcileCall ResourceGroupPiece az \<in> set (trace (fst (ReconcileCluster env c)))"
    unfolding ReconcileCluster_def u o
    by (rule reconcileBlocks_first_called[OF az]) simp
  {
    assume "ResourceGroup az = []"
    then show "ReconcileCall ResourceGroupPiece az
                 \<in> set (trace (fst (InitializeCloudProvider env c)))"
      unfolding InitializeCloudProvider_def u o
      by (intro reconcileBlocks_first_called[OF az]) simp
  }
  {
    assume "\<forall>p. specField p az \<noteq> []"
    then have "\<forall>p \<in> set reconcileOrder. specField p az \<noteq> []" by simp
    from reconcileBlocks_all_populated[OF az this]
    show "InitializeCloudProvider env c = (\<lparr>cluster = c, trace = []\<rparr>, Returned (Some c, None))"
      unfolding InitializeCloudProvider_def u by simp
  }
qed

lemmas azure_reconcile_defs = ReconcileCluster_def InitializeCloudProvider_def reconcileCluster_def
  reconcileOrder_def reconcileBlock_def Let_def

lemma run_reconcile_populated:
  "ReconcileCluster env_azure_ok (example_cluster []) =
     (\<lparr>cluster = example_cluster [],
       trace = [ReconcileCall ResourceGroupPiece example_azure,
                ReconcileCall VNetPiece example_azure,
                ReconcileCall SubnetPiece example_azure,
                ReconcileCall RouteTablePiece example_azure,
                ReconcileCall SecurityGroupPiece example_azure,
                ReconcileCall AvailabilitySetPiece example_azure]\<rparr>,
      Returned (Some (example_cluster []), None))"
  by (simp add: azure_reconcile_defs env_azure_ok_def example_cluster_azure)
     (simp add: example_azure_def)

lemma run_initialize_populated:
  "InitializeCloudProvider env_azure_ok (example_cluster []) =
     (\<lparr>cluster = example_cluster [], trace = []\<rparr>, Returned (Some (example_cluster []), None))"
  by (simp add: azure_reconcile_defs env_azure_ok_def example_cluster_azure)
     (simp add: example_azure_def)

lemma fresh_cluster_azure: "Azure (Cloud (Spec fresh_cluster)) = Some fresh_azure"
  by (simp add: fresh_cluster_def)

lemma run_initialize_fresh:
  "InitializeCloudProvider env_azure_ok fresh_cluster =
     (\<lparr>cluster = fresh_cluster,
       trace = [ReconcileCall ResourceGroupPiece fresh_azure,
                ReconcileCall VNetPiece fresh_azure,
                ReconcileCall SubnetPiece fresh_azure,
                ReconcileCall RouteTablePiece fresh_azure,
                ReconcileCall SecurityGroupPiece fresh_azure,
                ReconcileCall AvailabilitySetPiece fresh_azure]\<rparr>,
      Returned (Some fresh_cluster, None))"
  by (simp add: azure_reconcile_defs env_azure_ok_def fresh_cluster_azure)
     (simp add: fresh_azure_def)

theorem ReconcileCluster_forces_InitializeCloudProvider_fills_gaps_witness:
  "ReconcileCluster env_azure_ok (example_cluster [])
     = (\<lparr>cluster = example_cluster [],
         trace = [ReconcileCall ResourceGroupPiece example_azure,
                  ReconcileCall VNetPiece example_azure,
                  ReconcileCall SubnetPiece example_azure,
                  ReconcileCall RouteTablePiece example_azure,
                  ReconcileCall SecurityGroupPiece example_azure,
                  ReconcileCall AvailabilitySetPiece example_azure]\<rparr>,
        Returned (Some (example_cluster []), None))
   \<and> ResourceGroup example_azure \<noteq> []
   \<and> ReconcileCall ResourceGroupPiece example_azure
        \<in> set (trace (fst (ReconcileCluster env_azure_ok (example_cluster []))))
   \<and> ReconcileCall VNetPiece fresh_azure
        \<in> set (trace (fst (InitializeCloudProvider env_azure_ok fresh_cluster)))
   \<and> specField VNetPiece fresh_azure = []
   \<and> InitializeCloudProvider env_azure_ok (example_cluster [])
        = (\<lparr>cluster = example_cluster [], trace = []\<rparr>, Returned (Some (example_cluster []), None))"
proof -
  note populated = ReconcileCluster_forces_InitializeCloudProvider_fills_gaps
                     [of env_azure_ok "example_cluster []"]
  note fresh = ReconcileCluster_forces_InitializeCloudProvider_fills_gaps
                     [of env_azure_ok fresh_cluster]
  have pre: "GetCredentialsForCluster_result env_azure_ok = None
      \<and> GetClientSet_result env_azure_ok = None
      \<and> Azure (Cloud (Spec (example_cluster []))) = Some example_azure"
    by (simp add: env_azure_ok_def example_cluster_azure)
  have all: "\<forall>p. specField p example_azure \<noteq> []"
  proof
    fix p show "specField p example_azure \<noteq> []" by (cases p) (simp_all add: example_azure_def)
  qed
  from populated pre
  have a: "ReconcileCall ResourceGroupPiece example_azure
        \<in> set (trace (fst (ReconcileCluster env_azure_ok (example_cluster []))))"
    by blast
  from populated pre all
  have b: "InitializeCloudProvider env_azure_ok (example_cluster [])
        = (\<lparr>cluster = example_cluster [], trace = []\<rparr>, Returned (Some (example_cluster []), None))"
    by blast
  have m: "ReconcileCall VNetPiece fresh_azure
        \<in> set (trace (fst (InitializeCloudProvider env_azure_ok fresh_cluster)))"
    by (simp add: run_initialize_fresh)
  with fresh have c: "specField VNetPiece fresh_azure = []" by blast
  have d: "ResourceGroup example_azure \<noteq> []" by (simp add: example_azure_def)
  from a b c d m run_reconcile_populated show ?thesis by (intro conjI)
qed

text \<open>
  The claim as it was stated fails, in both halves: on a Cluster whose six fields are
  populated \<open>InitializeCloudProvider\<close> reconciles nothing, and \<open>ReconcileCluster\<close>
  reconciles all six pieces.
\<close>

theorem InitializeCloudProvider_forces_counterexample:
  "ResourceGroup example_azure = ''rg'' \<and> VNetName example_azure = ''vnet''
   \<and> SubnetName example_azure = ''subnet'' \<and> RouteTableName example_azure = ''rt''
   \<and> SecurityGroup example_azure = ''sg'' \<and> AvailabilitySet example_azure = ''as''
   \<and> Azure (Cloud (Spec (example_cluster []))) = Some example_azure
   \<and> trace (fst (InitializeCloudProvider env_azure_ok (example_cluster []))) = []
   \<and> trace (fst (ReconcileCluster env_azure_ok (example_cluster [])))
      = [ReconcileCall ResourceGroupPiece example_azure,
         ReconcileCall VNetPiece example_azure,
         ReconcileCall SubnetPiece example_azure,
         ReconcileCall RouteTablePiece example_azure,
         ReconcileCall SecurityGroupPiece example_azure,
         ReconcileCall AvailabilitySetPiece example_azure]"
  by (simp add: run_reconcile_populated run_initialize_populated example_cluster_azure)
     (simp add: example_azure_def)

section \<open>Verified properties: AddICMPRulesIfRequired\<close>

lemma scanRules_mono:
  "scanRules rules (t, u, i) = (t', u', i') \<Longrightarrow> (t \<longrightarrow> t') \<and> (u \<longrightarrow> u') \<and> (i \<longrightarrow> i')"
  by (induction rules "(t, u, i)" arbitrary: t u i rule: scanRules.induct)
     (auto split: option.splits if_splits)

lemma rule_names_distinct:
  "denyAllTCPSecGroupRuleName \<noteq> denyAllUDPSecGroupRuleName"
  "denyAllTCPSecGroupRuleName \<noteq> allowAllICMPSecGroupRuleName"
  "denyAllUDPSecGroupRuleName \<noteq> allowAllICMPSecGroupRuleName"
  by (simp_all add: denyAllTCPSecGroupRuleName_def denyAllUDPSecGroupRuleName_def
        allowAllICMPSecGroupRuleName_def)

lemma scanRules_flags:
  "scanRules rules (t, u, i) =
     (t \<or> hasRule denyAllTCPSecGroupRuleName rules,
      u \<or> hasRule denyAllUDPSecGroupRuleName rules,
      i \<or> hasRule allowAllICMPSecGroupRuleName rules)"
  using rule_names_distinct
  by (induction rules "(t, u, i)" arbitrary: t u i rule: scanRules.induct)
     (auto simp: hasRule_def split: option.splits)


text \<open>
  What holds of \<open>AddICMPRulesIfRequired\<close>: it makes at most one update call; none when the
  three baseline rules are present, none on a security group without the ownership tag; and
  when the rule list is there and a rule is missing, one update call that appends exactly
  the missing rules.
\<close>

lemma AddICMPRulesIfRequired_trace_cases:
  "fst (AddICMPRulesIfRequired env c) = []
   \<or> (\<exists>rg name. fst (AddICMPRulesIfRequired env c) = [SGGet rg name])
   \<or> (\<exists>rg name sg. fst (AddICMPRulesIfRequired env c) = [SGGet rg name, SGCreateOrUpdate rg name sg])"
  by (auto simp: AddICMPRulesIfRequired_def Let_def split: option.splits sum.splits prod.splits)

lemma AddICMPRulesIfRequired_at_most_one_update:
  "length (filter isUpdate (fst (AddICMPRulesIfRequired env c))) \<le> 1"
  using AddICMPRulesIfRequired_trace_cases[of env c] by auto

lemma AddICMPRulesIfRequired_all_present:
  assumes "sgClient_Get_result env = Inr sg" "Properties sg = Some props"
    "SecurityRules props = Some rules"
    "hasRule denyAllTCPSecGroupRuleName rules" "hasRule denyAllUDPSecGroupRuleName rules"
    "hasRule allowAllICMPSecGroupRuleName rules"
  shows "filter isUpdate (fst (AddICMPRulesIfRequired env c)) = []"
  using assms
  by (auto simp: AddICMPRulesIfRequired_def Let_def scanRules_flags split: option.splits)

lemma AddICMPRulesIfRequired_not_owned:
  assumes "sgClient_Get_result env = Inr sg" "\<not> hasOwnershipTag env (Tags sg) c"
  shows "filter isUpdate (fst (AddICMPRulesIfRequired env c)) = []"
  using assms
  by (auto simp: AddICMPRulesIfRequired_def Let_def split: option.splits)

lemma AddICMPRulesIfRequired_get_fails:
  assumes "sgClient_Get_result env = Inl err"
  shows "filter isUpdate (fst (AddICMPRulesIfRequired env c)) = []"
  using assms
  by (auto simp: AddICMPRulesIfRequired_def Let_def split: option.splits)

lemma AddICMPRulesIfRequired_missing:
  assumes "credentials_result env = None" "Azure (Cloud (Spec c)) = Some azure"
    "SecurityGroup azure \<noteq> []" "getSecurityGroupsClient_result env = None"
    "sgClient_Get_result env = Inr sg" "hasOwnershipTag env (Tags sg) c"
    "Properties sg = Some props" "SecurityRules props = Some rules"
    "\<not> (hasRule denyAllTCPSecGroupRuleName rules \<and> hasRule denyAllUDPSecGroupRuleName rules
         \<and> hasRule allowAllICMPSecGroupRuleName rules)"
  shows "fst (AddICMPRulesIfRequired env c) =
     [SGGet (ResourceGroup azure) (SecurityGroup azure),
      SGCreateOrUpdate (ResourceGroup azure) (SecurityGroup azure)
        (sg\<lparr>Properties := Some (props\<lparr>SecurityRules := Some (rules
           @ (if hasRule denyAllTCPSecGroupRuleName rules then [] else [tcpDenyAllRule env])
           @ (if hasRule denyAllUDPSecGroupRuleName rules then [] else [udpDenyAllRule env])
           @ (if hasRule allowAllICMPSecGroupRuleName rules then [] else [icmpAllowAllRule env]))\<rparr>)\<rparr>)]"
  using assms
  by (auto simp: AddICMPRulesIfRequired_def Let_def scanRules_flags split: option.splits)

text \<open>
  C9. \<open>AddICMPRulesIfRequired\<close> is to append all missing baseline rules in one batched
  update call. On a security group of this system whose rule list pointer is nil, all three
  rules are missing; the loop over the rules guards against the nil pointer, the append
  does not, and the call panics after the read instead of issuing the update.
\<close>

theorem AddICMPRulesIfRequired_nil_rules_panics:
  "AddICMPRulesIfRequired (icmp_env_example sg_without_rules) (example_cluster [])
     = ([SGGet ''rg'' ''sg''], Panicked)"
  by (simp add: AddICMPRulesIfRequired_def icmp_env_example_def sg_without_rules_def
        example_cluster_def example_azure_def)

section \<open>Verified properties: cluster controller\<close>

text \<open>
  C7. If applying the modify function changes the Status of the Cluster, \<open>updateCluster\<close>
  returns an error and issues no patch; a patch is issued exactly when the modify function
  changes the object and leaves Status as it was.
\<close>

theorem updateCluster_rejects_status_change:
  "(Status (modify (cluster st)) \<noteq> Status (cluster st) \<longrightarrow>
       snd (updateCluster env modify st)
         = Some (ErrorsNew ''updateCluster must not change cluster status'')
     \<and> trace (fst (updateCluster env modify st)) = trace st)
   \<and> (trace (fst (updateCluster env modify st)) =
         (if modify (cluster st) \<noteq> cluster st \<and> Status (modify (cluster st)) = Status (cluster st)
          then trace st @ [PatchCall (cluster st) (modify (cluster st))]
          else trace st))"
  by (auto simp: updateCluster_def Let_def split: option.splits)

theorem updateCluster_rejects_status_change_witness:
  "Status (setErrorMessage ''boom'' (example_cluster [])) \<noteq> Status (example_cluster [])
   \<and> snd (updateCluster controller_env_busy (setErrorMessage ''boom'')
            \<lparr>cluster = example_cluster [], trace = []\<rparr>)
       = Some (ErrorsNew ''updateCluster must not change cluster status'')
   \<and> trace (fst (updateCluster controller_env_busy (setErrorMessage ''boom'')
            \<lparr>cluster = example_cluster [], trace = []\<rparr>)) = []
   \<and> trace (fst (updateCluster controller_env_busy (addFinalizer NodeDeletionFinalizer)
            \<lparr>cluster = example_cluster [], trace = []\<rparr>))
       = [PatchCall (example_cluster []) (example_cluster [NodeDeletionFinalizer])]"
  using updateCluster_rejects_status_change
          [of "setErrorMessage ''boom''" "\<lparr>cluster = example_cluster [], trace = []\<rparr>"
              controller_env_busy]
        updateCluster_rejects_status_change
          [of "addFinalizer NodeDeletionFinalizer" "\<lparr>cluster = example_cluster [], trace = []\<rparr>"
              controller_env_busy]
  by (simp add: setErrorMessage_def addFinalizer_def example_cluster_def)

lemma reconcileClusterStatus_ok:
  assumes "reconcileClusterStatus_result env = None"
  shows "\<exists>c'. reconcileClusterStatus env \<lparr>cluster = c, trace = []\<rparr>
            = (\<lparr>cluster = c', trace = [StatusUpdateCall]\<rparr>, None)
          \<and> Spec c' = Spec c \<and> Meta c' = Meta c
          \<and> Versions (Status c') = Versions (Status c)"
  using assms by (simp add: reconcileClusterStatus_def UpdateClusterStatus_def Let_def)

lemma admitted_not_available:
  assumes "ClusterAvailableForReconciling_result env = (False, err)"
  shows "admitted env st =
     (st\<lparr>trace := trace st @ [AvailabilityCheck]\<rparr>,
      Some \<lparr>Requeue = False, RequeueAfter = 10 * Second\<rparr>, err)"
  using assms by (simp add: admitted_def Let_def)

text \<open>
  C6. When a reconcile reaches the function wrapped by \<open>ClusterReconcileWrapper\<close> (the
  Cluster is read, its status is stamped, it has a control-plane version, is not paused and
  belongs to this worker) and \<open>ClusterAvailableForReconciling\<close> reports the cluster as not
  available, \<open>Reconcile\<close> returns a result with \<open>RequeueAfter\<close> of ten seconds and has
  not called the inner reconcile: no cluster reconciliation and no cleanup pass was run.
\<close>

theorem Reconcile_requeues_at_concurrency_limit:
  assumes get: "Get_result env = Inr c"
    and status: "reconcileClusterStatus_result env = None"
    and version: "ControlPlane (Versions (Status c)) \<noteq> []"
    and unpaused: "\<not> Pause (Spec c)"
    and owned: "label (Meta c) WorkerNameLabelKey = workerName env"
    and limit: "ClusterAvailableForReconciling_result env = (False, err)"
  shows "RequeueAfter (fst (snd (Reconcile env))) = 10 * Second
       \<and> snd (snd (Reconcile env)) = err
       \<and> AvailabilityCheck \<in> set (fst (Reconcile env))
       \<and> InnerReconcile \<notin> set (fst (Reconcile env))
       \<and> ReconcileClusterCall \<notin> set (fst (Reconcile env))
       \<and> (\<forall>tr. CleanupPass tr \<notin> set (fst (Reconcile env)))"
proof -
  from reconcileClusterStatus_ok[OF status, of c] obtain c' where
    s: "reconcileClusterStatus env \<lparr>cluster = c, trace = []\<rparr>
            = (\<lparr>cluster = c', trace = [StatusUpdateCall]\<rparr>, None)"
    and same: "Spec c' = Spec c" "Meta c' = Meta c" "Versions (Status c') = Versions (Status c)"
    by blast
  have "Reconcile env =
     ([StatusUpdateCall, AvailabilityCheck]
        @ (case err of None \<Rightarrow> [] | Some e \<Rightarrow> [EventRecorded ''ReconcilingError'' (errorText env e)]),
      \<lparr>Requeue = False, RequeueAfter = 10 * Second\<rparr>, err)"
    using get s same version unpaused owned
    by (cases err)
       (simp_all add: Reconcile_def ClusterReconcileWrapper_def admitted_not_available[OF limit])
  then show ?thesis by (cases err) simp_all
qed

theorem Reconcile_requeues_at_concurrency_limit_witness:
  "Get_result controller_env_busy = Inr (example_cluster [])
   \<and> ClusterAvailableForReconciling_result controller_env_busy = (False, None)
   \<and> RequeueAfter (fst (snd (Reconcile controller_env_busy))) = 10 * Second
   \<and> snd (snd (Reconcile controller_env_busy)) = None
   \<and> InnerReconcile \<notin> set (fst (Reconcile controller_env_busy))
   \<and> ReconcileClusterCall \<notin> set (fst (Reconcile controller_env_busy))"
proof -
  have get: "Get_result controller_env_busy = Inr (example_cluster [])"
    and status: "reconcileClusterStatus_result controller_env_busy = None"
    and limit: "ClusterAvailableForReconciling_result controller_env_busy = (False, None)"
    by (simp_all add: controller_env_busy_def)
  have version: "ControlPlane (Versions (Status (example_cluster []))) \<noteq> []"
    and unpaused: "\<not> Pause (Spec (example_cluster []))"
    by (simp_all add: example_cluster_def)
  have owned: "label (Meta (example_cluster [])) WorkerNameLabelKey = workerName controller_env_busy"
    by (simp add: label_def example_cluster_def controller_env_busy_def)
  from Reconcile_requeues_at_concurrency_limit [OF get status version unpaused owned limit]
    get limit
  show ?thesis by simp
qed

section \<open>Verified properties: addon controller\<close>

lemma removeCleanupFinalizer_cases:
  "removeCleanupFinalizer env a =
     (case removeCleanupFinalizer_result env of
        Some e \<Rightarrow> (a, Some e)
      | None \<Rightarrow> (a\<lparr>AddonMeta := RemoveFinalizer (AddonMeta a) [cleanupFinalizerName]\<rparr>, None))"
  by (simp add: removeCleanupFinalizer_def TryRemoveFinalizer_def split: option.splits)

lemma AddonReconcile_cluster_not_found:
  assumes "addonGet_result env = Inr a" "clusterGet_result env = Inl err" "IsNotFound err"
  shows "AddonReconcile env =
     (case removeCleanupFinalizer_result env of
        Some e \<Rightarrow>
          ([AddonGetCall, ClusterGetCall (AddonCluster a), RemoveCleanupFinalizerCall], Some a,
           emptyResult, Some (Wrapf ''failed to remove addon cleanup finalizer: %w'' [] e))
      | None \<Rightarrow>
          ([AddonGetCall, ClusterGetCall (AddonCluster a), RemoveCleanupFinalizerCall],
           Some (a\<lparr>AddonMeta := RemoveFinalizer (AddonMeta a) [cleanupFinalizerName]\<rparr>),
           emptyResult, None))"
  using assms
  by (simp add: AddonReconcile_def Let_def removeCleanupFinalizer_cases split: option.splits)

text \<open>
  C10 (as amended). When the Cluster an Addon refers to no longer exists (the read of the
  cluster answers not-found), the addon reconciler makes one more call only, the removal of
  the addon's cleanup finalizer: it does not attempt to delete manifests from the tenant
  cluster and does not run the wrapped reconcile. If the removal goes through, the finalizer
  is gone, the other finalizers are as they were, and \<open>Reconcile\<close> returns success; if
  the seed API refuses the removal, the finalizer stays and \<open>Reconcile\<close> returns the error
  "failed to remove addon cleanup finalizer".
\<close>

theorem AddonReconcile_cluster_gone:
  assumes get: "addonGet_result env = Inr a"
    and gone: "clusterGet_result env = Inl err" "IsNotFound err"
  shows "fst (AddonReconcile env)
           = [AddonGetCall, ClusterGetCall (AddonCluster a), RemoveCleanupFinalizerCall]
       \<and> CleanupManifestsCall \<notin> set (fst (AddonReconcile env))
       \<and> AddonInnerReconcile \<notin> set (fst (AddonReconcile env))
       \<and> (removeCleanupFinalizer_result env = None \<longrightarrow>
             snd (AddonReconcile env)
               = (Some (a\<lparr>AddonMeta := (AddonMeta a)\<lparr>Finalizers :=
                          filter (\<lambda>f. f \<noteq> cleanupFinalizerName) (Finalizers (AddonMeta a))\<rparr>\<rparr>),
                  emptyResult, None))
       \<and> (\<forall>e. removeCleanupFinalizer_result env = Some e \<longrightarrow>
             snd (AddonReconcile env)
               = (Some a, emptyResult,
                  Some (Wrapf ''failed to remove addon cleanup finalizer: %w'' [] e)))"
  using AddonReconcile_cluster_not_found[OF get gone]
  by (cases "removeCleanupFinalizer_result env") (simp_all add: RemoveFinalizer_def)

lemma run_addon_cluster_gone:
  "AddonReconcile addon_env_cluster_gone =
     ([AddonGetCall, ClusterGetCall ''c1'', RemoveCleanupFinalizerCall],
      Some (example_addon\<lparr>AddonMeta := (AddonMeta example_addon)\<lparr>Finalizers := []\<rparr>\<rparr>),
      emptyResult, None)"
  by (simp add: AddonReconcile_def Let_def removeCleanupFinalizer_cases RemoveFinalizer_def
        addon_env_cluster_gone_def example_addon_def)

lemma run_addon_write_refused:
  "AddonReconcile addon_env_write_refused =
     ([AddonGetCall, ClusterGetCall ''c1'', RemoveCleanupFinalizerCall],
      Some example_addon, emptyResult,
      Some (Wrapf ''failed to remove addon cleanup finalizer: %w'' [] (StatusError ''Conflict'')))"
  by (simp add: AddonReconcile_def Let_def removeCleanupFinalizer_cases
        addon_env_write_refused_def addon_env_cluster_gone_def example_addon_def)

theorem AddonReconcile_cluster_gone_witness:
  "addonGet_result addon_env_cluster_gone = Inr example_addon
   \<and> clusterGet_result addon_env_cluster_gone = Inl (StatusError ''NotFound'')
   \<and> IsNotFound (StatusError ''NotFound'')
   \<and> removeCleanupFinalizer_result addon_env_cluster_gone = None
   \<and> AddonReconcile addon_env_cluster_gone =
       ([AddonGetCall, ClusterGetCall ''c1'', RemoveCleanupFinalizerCall],
        Some (example_addon\<lparr>AddonMeta := (AddonMeta example_addon)\<lparr>Finalizers := []\<rparr>\<rparr>),
        emptyResult, None)
   \<and> removeCleanupFinalizer_result addon_env_write_refused = Some (StatusError ''Conflict'')
   \<and> snd (AddonReconcile addon_env_write_refused) =
       (Some example_addon, emptyResult,
        Some (Wrapf ''failed to remove addon cleanup finalizer: %w'' [] (StatusError ''Conflict'')))"
proof -
  have get: "addonGet_result addon_env_cluster_gone = Inr example_addon"
    and gone: "clusterGet_result addon_env_cluster_gone = Inl (StatusError ''NotFound'')"
    and ok: "removeCleanupFinalizer_result addon_env_cluster_gone = None"
    by (simp_all add: addon_env_cluster_gone_def)
  have get': "addonGet_result addon_env_write_refused = Inr example_addon"
    and gone': "clusterGet_result addon_env_write_refused = Inl (StatusError ''NotFound'')"
    and refused: "removeCleanupFinalizer_result addon_env_write_refused
                    = Some (StatusError ''Conflict'')"
    by (simp_all add: addon_env_write_refused_def addon_env_cluster_gone_def)
  have nf: "IsNotFound (StatusError ''NotFound'')" by simp
  from AddonReconcile_cluster_gone [OF get gone nf] ok
  have a: "snd (AddonReconcile addon_env_cluster_gone)
        = (Some (example_addon\<lparr>AddonMeta := (AddonMeta example_addon)\<lparr>Finalizers :=
             filter (\<lambda>f. f \<noteq> cleanupFinalizerName) (Finalizers (AddonMeta example_addon))\<rparr>\<rparr>),
           emptyResult, None)"
    and tr: "fst (AddonReconcile addon_env_cluster_gone)
        = [AddonGetCall, ClusterGetCall (AddonCluster example_addon), RemoveCleanupFinalizerCall]"
    by blast+
  from AddonReconcile_cluster_gone [OF get' gone' nf] refused
  have b: "snd (AddonReconcile addon_env_write_refused) =
       (Some example_addon, emptyResult,
        Some (Wrapf ''failed to remove addon cleanup finalizer: %w'' [] (StatusError ''Conflict'')))"
    by blast
  have c: "AddonReconcile addon_env_cluster_gone =
       ([AddonGetCall, ClusterGetCall ''c1'', RemoveCleanupFinalizerCall],
        Some (example_addon\<lparr>AddonMeta := (AddonMeta example_addon)\<lparr>Finalizers := []\<rparr>\<rparr>),
        emptyResult, None)"
    using a tr by (cases "AddonReconcile addon_env_cluster_gone") (simp add: example_addon_def)
  from get gone nf ok refused b c show ?thesis by (intro conjI)
qed

text \<open>
  The claim as it was stated fails: the cluster is gone, the seed API refuses the write that
  removes the finalizer, and the reconciler returns an error and leaves the finalizer on
  the addon.
\<close>

theorem AddonReconcile_cluster_gone_write_refused_counterexample:
  "clusterGet_result addon_env_write_refused = Inl (StatusError ''NotFound'')
   \<and> IsNotFound (StatusError ''NotFound'')
   \<and> AddonReconcile addon_env_write_refused =
       ([AddonGetCall, ClusterGetCall ''c1'', RemoveCleanupFinalizerCall],
        Some example_addon, emptyResult,
        Some (Wrapf ''failed to remove addon cleanup finalizer: %w'' [] (StatusError ''Conflict'')))
   \<and> cleanupFinalizerName \<in> set (Finalizers (AddonMeta example_addon))"
  by (simp add: run_addon_write_refused)
     (simp add: addon_env_write_refused_def addon_env_cluster_gone_def example_addon_def)

end
